theory Spec2Isabelle
  imports Complex_Main "HOL-Library.Char_ord" "HOL-Library.List_Lexorder"
begin

section \<open>Shared types (src/shared/types.ts)\<close>

text \<open>
  The string-literal unions of the source are datatypes, one constructor per literal.
  Strings are lists of characters with code points below 256.
\<close>

datatype StreamStatus = Created | Starting | Running | Stopped | Error

datatype HwAccelPolicy = Auto | Cpu | Qsv | VideoToolbox | Nvenc

datatype VideoCodec = VCopy | H264 | Hevc

datatype AudioCodec = ACopy | Aac | Opus | ANone

datatype RtspTransport = Tcp | Udp

text \<open>
  A JavaScript number: a finite value (every finite double is a rational) or one of the
  three non-finite values.
\<close>

datatype number = Num rat | NaN | PosInfinity | NegInfinity

text \<open>
  \<open>StreamTaskPayload\<close> and \<open>StreamTask\<close> share eight fields of the same type; they are
  the record \<open>TaskCommon\<close>, which both extend. The optional numbers \<open>bitrateKbps\<close> and
  \<open>fps\<close> are arbitrary numbers in a payload (fields \<open>p_bitrateKbps\<close>, \<open>p_fps\<close>) and
  results of \<open>toFiniteInt\<close> in a stored task: every write of these two fields in
  settings-store.ts goes through \<open>toFiniteInt\<close>, whose results are natural numbers.
  An optional field is an \<open>option\<close>, \<open>None\<close> for \<open>undefined\<close>.
\<close>

record TaskCommon =
  name :: string
  inputFile :: string
  path :: string
  transport :: RtspTransport
  loop :: bool
  hwAccel :: HwAccelPolicy
  videoCodec :: VideoCodec
  audioCodec :: AudioCodec

record StreamTaskPayload = TaskCommon +
  p_bitrateKbps :: "number option"
  p_fps :: "number option"

record StreamTask = TaskCommon +
  task_id :: string
  bitrateKbps :: "nat option"
  fps :: "nat option"
  status :: StreamStatus
  lastError :: "string option"
  createdAt :: string
  updatedAt :: string

record AppSettings =
  listenHost :: string
  listenPort :: int
  enableAuth :: bool
  authUsername :: string
  authPassword :: string
  defaultHwAccelPolicy :: HwAccelPolicy

record FFmpegCapabilities =
  available :: bool
  ffmpegPath :: string
  hwaccels :: "string list"
  encoders :: "string list"
  hasQsvH264 :: bool
  hasQsvHevc :: bool
  hasVideoToolboxH264 :: bool
  hasVideoToolboxHevc :: bool
  hasNvencH264 :: bool
  hasNvencHevc :: bool
  capsLastError :: "string option"

text \<open>
  Every \<open>throw new Error(message)\<close> of the source is a value of this type. The constructor
  is the failure kind; its argument is the message the source builds.
\<close>

datatype error =
    EncoderUnavailable string
  | InvalidTask string
  | InvalidInput string
  | PathTaken string
  | TaskNotFound string
  | InvalidSettings string
  | NotInitialized string

section \<open>Encoder selection (src/main/services/ffmpeg-command-builder.ts)\<close>

datatype SelectedPolicy = PolicyCopy | Policy HwAccelPolicy

record EncoderChoice =
  policy :: SelectedPolicy
  encoder :: string

definition codecPrefix :: "VideoCodec \<Rightarrow> string" where
  "codecPrefix codec = (if codec = Hevc then ''hevc'' else ''h264'')"

definition cpuEncoder :: "VideoCodec \<Rightarrow> string" where
  "cpuEncoder codec = (if codec = Hevc then ''libx265'' else ''libx264'')"

definition qsvEncoder :: "VideoCodec \<Rightarrow> string" where
  "qsvEncoder codec = codecPrefix codec @ ''_qsv''"

definition nvencEncoder :: "VideoCodec \<Rightarrow> string" where
  "nvencEncoder codec = codecPrefix codec @ ''_nvenc''"

definition videoToolboxEncoder :: "VideoCodec \<Rightarrow> string" where
  "videoToolboxEncoder codec = codecPrefix codec @ ''_videotoolbox''"

definition canUseQsv :: "VideoCodec \<Rightarrow> FFmpegCapabilities \<Rightarrow> bool" where
  "canUseQsv codec caps = (if codec = Hevc then hasQsvHevc caps else hasQsvH264 caps)"

definition canUseNvenc :: "VideoCodec \<Rightarrow> FFmpegCapabilities \<Rightarrow> bool" where
  "canUseNvenc codec caps = (if codec = Hevc then hasNvencHevc caps else hasNvencH264 caps)"

definition canUseVideoToolbox :: "VideoCodec \<Rightarrow> FFmpegCapabilities \<Rightarrow> bool" where
  "canUseVideoToolbox codec caps =
     (if codec = Hevc then hasVideoToolboxHevc caps else hasVideoToolboxH264 caps)"

definition requested :: "StreamTask \<Rightarrow> AppSettings \<Rightarrow> HwAccelPolicy" where
  "requested task settings =
     (if hwAccel task = Auto then defaultHwAccelPolicy settings else hwAccel task)"

definition selectEncoder ::
  "StreamTask \<Rightarrow> AppSettings \<Rightarrow> FFmpegCapabilities \<Rightarrow> error + EncoderChoice" where
  "selectEncoder task settings caps =
     (if videoCodec task = VCopy then Inr \<lparr>policy = PolicyCopy, encoder = ''copy''\<rparr>
      else if requested task settings = Qsv then
        (if \<not> canUseQsv (videoCodec task) caps
         then Inl (EncoderUnavailable
                (''Requested QSV encoder is unavailable: '' @ qsvEncoder (videoCodec task)))
         else Inr \<lparr>policy = Policy Qsv, encoder = qsvEncoder (videoCodec task)\<rparr>)
      else if requested task settings = Nvenc then
        (if \<not> canUseNvenc (videoCodec task) caps
         then Inl (EncoderUnavailable
                (''Requested NVENC encoder is unavailable: '' @ nvencEncoder (videoCodec task)))
         else Inr \<lparr>policy = Policy Nvenc, encoder = nvencEncoder (videoCodec task)\<rparr>)
      else if requested task settings = Cpu then
        Inr \<lparr>policy = Policy Cpu, encoder = cpuEncoder (videoCodec task)\<rparr>
      else if requested task settings = VideoToolbox then
        (if \<not> canUseVideoToolbox (videoCodec task) caps
         then Inl (EncoderUnavailable
                (''Requested VideoToolbox encoder is unavailable: ''
                   @ videoToolboxEncoder (videoCodec task)))
         else Inr \<lparr>policy = Policy VideoToolbox,
                    encoder = videoToolboxEncoder (videoCodec task)\<rparr>)
      else if canUseNvenc (videoCodec task) caps then
        Inr \<lparr>policy = Policy Nvenc, encoder = nvencEncoder (videoCodec task)\<rparr>
      else if canUseQsv (videoCodec task) caps then
        Inr \<lparr>policy = Policy Qsv, encoder = qsvEncoder (videoCodec task)\<rparr>
      else if canUseVideoToolbox (videoCodec task) caps then
        Inr \<lparr>policy = Policy VideoToolbox, encoder = videoToolboxEncoder (videoCodec task)\<rparr>
      else Inr \<lparr>policy = Policy Cpu, encoder = cpuEncoder (videoCodec task)\<rparr>)"

section \<open>Strings of the host language\<close>

text \<open>
  White space as \<open>String.prototype.trim\<close> and the regular-expression class \<open>\s\<close> see it,
  among the code points below 256: tab, line feed, vertical tab, form feed, carriage
  return, space and no-break space.
\<close>

definition isSpace :: "char \<Rightarrow> bool" where
  "isSpace c = (c \<in> set [CHR 0x09, CHR 0x0A, CHR 0x0B, CHR 0x0C, CHR 0x0D, CHR 0x20, CHR 0xA0])"

definition trim :: "string \<Rightarrow> string" where
  "trim s = rev (dropWhile isSpace (rev (dropWhile isSpace s)))"

text \<open>\<open>replace(/^\/+/, '')\<close>: the leading run of slashes is removed.\<close>

definition stripLeadingSlashes :: "string \<Rightarrow> string" where
  "stripLeadingSlashes s = dropWhile (\<lambda>c. c = CHR ''/'') s"

text \<open>\<open>replace(/\s+/g, '-')\<close>: every maximal run of white space becomes one hyphen.\<close>

function collapseWhitespace :: "string \<Rightarrow> string" where
  "collapseWhitespace [] = []"
| "collapseWhitespace (c # cs) =
     (if isSpace c then CHR ''-'' # collapseWhitespace (dropWhile isSpace cs)
      else c # collapseWhitespace cs)"
  by pat_completeness auto
termination
  by (relation "measure length") (auto simp: le_imp_less_Suc length_dropWhile_le)

text \<open>
  \<open>toLowerCase\<close> on code points below 256: the ASCII capitals and the Latin-1 capitals
  (0xC0 to 0xDE without the multiplication sign 0xD7) move up by 32.
\<close>

definition toLowerChar :: "char \<Rightarrow> char" where
  "toLowerChar c =
     (let n = (of_char c :: nat)
      in if (65 \<le> n \<and> n \<le> 90) \<or> (192 \<le> n \<and> n \<le> 222 \<and> n \<noteq> 215)
         then char_of (n + 32) else c)"

definition toLowerCase :: "string \<Rightarrow> string" where
  "toLowerCase s = map toLowerChar s"

text \<open>\<open>String(n)\<close> for an integer below \<open>10^21\<close>: its decimal digits.\<close>

definition digitChar :: "nat \<Rightarrow> char" where
  "digitChar d = ''0123456789ABCDEF'' ! d"

fun showNat :: "nat \<Rightarrow> string" where
  "showNat n = (if n < 10 then [digitChar n] else showNat (n div 10) @ [digitChar (n mod 10)])"

declare showNat.simps [simp del]

definition showInt :: "int \<Rightarrow> string" where
  "showInt i = (if i < 0 then CHR ''-'' # showNat (nat (- i)) else showNat (nat i))"

text \<open>
  \<open>encodeURIComponent\<close>: letters, digits and \<open>- _ . ! ~ * ' ( )\<close> stay; every other
  character becomes the bytes of its UTF-8 encoding, each written \<open>%XX\<close> in upper-case
  hexadecimal. A code point from 128 to 255 has two UTF-8 bytes.
\<close>

definition unreserved :: "char \<Rightarrow> bool" where
  "unreserved c =
     (c = CHR 0x27 \<or>
      c \<in> set ''ABCDEFGHIJKLMNOPQRSTUVWXYZabcdefghijklmnopqrstuvwxyz0123456789-_.!~*()'')"

definition utf8Bytes :: "char \<Rightarrow> nat list" where
  "utf8Bytes c =
     (let n = (of_char c :: nat)
      in if n < 128 then [n] else [192 + n div 64, 128 + n mod 64])"

definition percentByte :: "nat \<Rightarrow> string" where
  "percentByte b = [CHR ''%'', digitChar (b div 16), digitChar (b mod 16)]"

definition encodeURIComponent :: "string \<Rightarrow> string" where
  "encodeURIComponent s =
     concat (map (\<lambda>c. if unreserved c then [c] else concat (map percentByte (utf8Bytes c))) s)"

section \<open>Command synthesis (src/main/services/ffmpeg-command-builder.ts)\<close>

definition safeSegment :: "string \<Rightarrow> string" where
  "safeSegment v = collapseWhitespace (stripLeadingSlashes (trim v))"

definition isWildcardHost :: "string \<Rightarrow> bool" where
  "isWildcardHost host =
     (let normalized = toLowerCase (trim host)
      in normalized = ''0.0.0.0'' \<or> normalized = ''::'' \<or> normalized = ''[::]'')"

record BuiltFFmpegCommand =
  args :: "string list"
  outputUrl :: string
  selectedPolicy :: SelectedPolicy
  videoEncoder :: string

text \<open>The truth value of an optional number: \<open>undefined\<close> and \<open>0\<close> are false.\<close>

definition truthy :: "nat option \<Rightarrow> bool" where
  "truthy v = (case v of None \<Rightarrow> False | Some n \<Rightarrow> n \<noteq> 0)"

definition publishHost :: "AppSettings \<Rightarrow> string" where
  "publishHost settings =
     (if isWildcardHost (listenHost settings) then ''127.0.0.1'' else trim (listenHost settings))"

definition authPrefix :: "AppSettings \<Rightarrow> string" where
  "authPrefix settings =
     (if enableAuth settings
      then encodeURIComponent (authUsername settings) @ '':''
             @ encodeURIComponent (authPassword settings) @ ''@''
      else [])"

definition videoArgs :: "StreamTask \<Rightarrow> EncoderChoice \<Rightarrow> string list" where
  "videoArgs task choice =
     (if videoCodec task = VCopy then [''-c:v'', ''copy'']
      else [''-c:v'', encoder choice]
           @ (if truthy (bitrateKbps task)
              then [''-b:v'', showNat (the (bitrateKbps task)) @ ''k''] else [])
           @ (if truthy (fps task) then [''-r'', showNat (the (fps task))] else [])
           @ (if policy choice = Policy Nvenc then [''-preset'', ''p4''] else [])
           @ (if policy choice = Policy Cpu then [''-preset'', ''veryfast''] else []))"

definition audioArgs :: "StreamTask \<Rightarrow> string list" where
  "audioArgs task =
     (if audioCodec task = ANone then [''-an'']
      else if audioCodec task = ACopy then [''-c:a'', ''copy'']
      else if audioCodec task = Aac then [''-c:a'', ''aac'', ''-b:a'', ''128k'']
      else [''-c:a'', ''libopus'', ''-b:a'', ''96k''])"

definition transportName :: "RtspTransport \<Rightarrow> string" where
  "transportName t = (case t of Tcp \<Rightarrow> ''tcp'' | Udp \<Rightarrow> ''udp'')"

definition buildFFmpegCommand ::
  "StreamTask \<Rightarrow> AppSettings \<Rightarrow> FFmpegCapabilities \<Rightarrow> error + BuiltFFmpegCommand" where
  "buildFFmpegCommand task settings caps =
     (case selectEncoder task settings caps of
        Inl e \<Rightarrow> Inl e
      | Inr choice \<Rightarrow>
          (let pathSegment = safeSegment (path task)
           in if pathSegment = [] then Inl (InvalidTask ''Task path is empty'')
              else
                (let url = ''rtsp://'' @ authPrefix settings @ publishHost settings @ '':''
                             @ showInt (listenPort settings) @ ''/'' @ pathSegment
                 in Inr \<lparr>args =
                           [''-hide_banner'', ''-loglevel'', ''info'', ''-re'']
                           @ (if loop task then [''-stream_loop'', ''-1''] else [])
                           @ [''-i'', inputFile task]
                           @ videoArgs task choice
                           @ audioArgs task
                           @ [''-rtsp_transport'', transportName (transport task)]
                           @ [''-muxdelay'', ''0.1'']
                           @ [''-f'', ''rtsp'', url],
                         outputUrl = url,
                         selectedPolicy = policy choice,
                         videoEncoder = encoder choice\<rparr>)))"

section \<open>The settings store (src/main/services/settings-store.ts)\<close>

record AppConfig =
  version :: nat
  settings :: AppSettings
  tasks :: "StreamTask list"

definition CONFIG_VERSION :: nat where
  "CONFIG_VERSION = 1"

text \<open>
  The store holds the configuration in memory (\<open>this.config\<close>, \<open>null\<close> before \<open>init\<close>);
  \<open>saved\<close> is the content of config.json as \<open>persist\<close> last wrote it. Writes succeed and
  are awaited one by one, so the write queue is not modelled.
\<close>

record SettingsStore =
  config :: "AppConfig option"
  saved :: "AppConfig option"

definition persist :: "SettingsStore \<Rightarrow> SettingsStore" where
  "persist st = st\<lparr>saved := config st\<rparr>"

text \<open>
  \<open>createPassword\<close>, \<open>nowIso\<close> and \<open>crypto.randomUUID\<close> read the random source and the clock;
  their results are parameters (\<open>pw\<close>, \<open>now\<close>, \<open>uuid\<close>) of the functions that call them.
  \<open>defaultSettings\<close> sets no \<open>enableAuth\<close>; the field is then \<open>undefined\<close>, which every
  reader of it treats as false.
\<close>

definition defaultSettings :: "string \<Rightarrow> AppSettings" where
  "defaultSettings pw =
     \<lparr>listenHost = ''127.0.0.1'', listenPort = 8554, enableAuth = False,
      authUsername = ''rtspuser'', authPassword = pw, defaultHwAccelPolicy = Auto\<rparr>"

definition normalizePathSegment :: "string \<Rightarrow> string" where
  "normalizePathSegment v = collapseWhitespace (stripLeadingSlashes (trim v))"

definition isFinite :: "number \<Rightarrow> bool" where
  "isFinite n = (case n of Num q \<Rightarrow> True | _ \<Rightarrow> False)"

definition isInteger :: "number \<Rightarrow> bool" where
  "isInteger n = (case n of Num q \<Rightarrow> q = of_int \<lfloor>q\<rfloor> | _ \<Rightarrow> False)"

text \<open>\<open>Math.floor\<close> of a finite number; only applied to finite numbers.\<close>

definition floorNumber :: "number \<Rightarrow> int" where
  "floorNumber n = (case n of Num q \<Rightarrow> \<lfloor>q\<rfloor> | _ \<Rightarrow> 0)"

definition isPositive :: "number \<Rightarrow> bool" where
  "isPositive n = (case n of Num q \<Rightarrow> 0 < q | PosInfinity \<Rightarrow> True | _ \<Rightarrow> False)"

definition toFiniteInt :: "number option \<Rightarrow> nat option" where
  "toFiniteInt v =
     (case v of
        None \<Rightarrow> None
      | Some parsed \<Rightarrow>
          if \<not> isFinite parsed \<or> \<not> isPositive parsed then None
          else Some (nat (floorNumber parsed)))"

definition toStreamStatus :: "string option \<Rightarrow> StreamStatus" where
  "toStreamStatus v =
     (if v = Some ''created'' then Created
      else if v = Some ''starting'' then Starting
      else if v = Some ''running'' then Running
      else if v = Some ''stopped'' then Stopped
      else if v = Some ''error'' then Error
      else Created)"

text \<open>
  The parsed content of config.json (\<open>Partial<AppConfig>\<close>): every field is optional and,
  when present, has the type the source declares for it; a string-literal union is read
  as the string the file holds.
\<close>

record RawTask =
  r_id :: "string option"
  r_name :: "string option"
  r_inputFile :: "string option"
  r_path :: "string option"
  r_transport :: "string option"
  r_loop :: "bool option"
  r_hwAccel :: "string option"
  r_videoCodec :: "string option"
  r_audioCodec :: "string option"
  r_bitrateKbps :: "number option"
  r_fps :: "number option"
  r_status :: "string option"
  r_lastError :: "string option"
  r_createdAt :: "string option"
  r_updatedAt :: "string option"

record RawSettings =
  rs_listenHost :: "string option"
  rs_listenPort :: "number option"
  rs_authUsername :: "string option"
  rs_authPassword :: "string option"
  rs_defaultHwAccelPolicy :: "string option"

record RawConfig =
  rc_settings :: "RawSettings option"
  rc_tasks :: "RawTask list option"

text \<open>\<open>!v\<close> for an optional string: \<open>undefined\<close> and the empty string are false.\<close>

definition falsy :: "string option \<Rightarrow> bool" where
  "falsy v = (v = None \<or> v = Some [])"

text \<open>\<open>a || b\<close> for an optional string \<open>a\<close>.\<close>

definition orElse :: "string option \<Rightarrow> string \<Rightarrow> string" where
  "orElse v d = (if falsy v then d else the v)"

definition normalizeTask :: "string \<Rightarrow> RawTask \<Rightarrow> StreamTask option" where
  "normalizeTask now raw =
     (if falsy (r_id raw) \<or> falsy (r_name raw) \<or> falsy (r_inputFile raw) \<or> falsy (r_path raw)
      then None
      else
        (let pathSegment = normalizePathSegment (the (r_path raw))
         in if pathSegment = [] then None
            else
              (let created = orElse (r_createdAt raw) now;
                   updated = orElse (r_updatedAt raw) created
               in Some \<lparr>name = the (r_name raw),
                        inputFile = the (r_inputFile raw),
                        path = pathSegment,
                        transport = (if r_transport raw = Some ''udp'' then Udp else Tcp),
                        loop = (r_loop raw = Some True),
                        hwAccel =
                          (if r_hwAccel raw = Some ''cpu'' then Cpu
                           else if r_hwAccel raw = Some ''qsv'' then Qsv
                           else if r_hwAccel raw = Some ''nvenc'' then Nvenc
                           else if r_hwAccel raw = Some ''videotoolbox'' then VideoToolbox
                           else Auto),
                        videoCodec =
                          (if r_videoCodec raw = Some ''copy'' then VCopy
                           else if r_videoCodec raw = Some ''hevc'' then Hevc
                           else H264),
                        audioCodec =
                          (if r_audioCodec raw = Some ''copy'' then ACopy
                           else if r_audioCodec raw = Some ''opus'' then Opus
                           else if r_audioCodec raw = Some ''none'' then ANone
                           else Aac),
                        task_id = the (r_id raw),
                        bitrateKbps = toFiniteInt (r_bitrateKbps raw),
                        fps = toFiniteInt (r_fps raw),
                        status = toStreamStatus (r_status raw),
                        lastError = r_lastError raw,
                        createdAt = created,
                        updatedAt = updated\<rparr>)))"

text \<open>The last \<open>map\<close> of \<open>normalizeConfig\<close>: no process survives a restart.\<close>

definition resetStatus :: "StreamTask \<Rightarrow> StreamTask" where
  "resetStatus task =
     (if status task = Running \<or> status task = Starting then task\<lparr>status := Stopped\<rparr>
      else task)"

definition normalizeSettings :: "string \<Rightarrow> RawSettings option \<Rightarrow> AppSettings" where
  "normalizeSettings pw settingsRaw =
     (let host = (case settingsRaw of None \<Rightarrow> None | Some r \<Rightarrow> rs_listenHost r);
          port = (case settingsRaw of None \<Rightarrow> None | Some r \<Rightarrow> rs_listenPort r);
          user = (case settingsRaw of None \<Rightarrow> None | Some r \<Rightarrow> rs_authUsername r);
          pass = (case settingsRaw of None \<Rightarrow> None | Some r \<Rightarrow> rs_authPassword r);
          pol = (case settingsRaw of None \<Rightarrow> None | Some r \<Rightarrow> rs_defaultHwAccelPolicy r)
      in \<lparr>listenHost = orElse host ''127.0.0.1'',
          listenPort =
            (case port of
               None \<Rightarrow> 8554
             | Some n \<Rightarrow> if isInteger n \<and> 0 < floorNumber n then floorNumber n else 8554),
          enableAuth = False,
          authUsername = orElse user ''rtspuser'',
          authPassword = orElse pass pw,
          defaultHwAccelPolicy =
            (if pol = Some ''cpu'' then Cpu
             else if pol = Some ''qsv'' then Qsv
             else if pol = Some ''videotoolbox'' then VideoToolbox
             else if pol = Some ''nvenc'' then Nvenc
             else Auto)\<rparr>)"

definition normalizeConfig :: "string \<Rightarrow> string \<Rightarrow> RawConfig \<Rightarrow> AppConfig" where
  "normalizeConfig pw now raw =
     \<lparr>version = CONFIG_VERSION,
      settings = normalizeSettings pw (rc_settings raw),
      tasks =
        (case rc_tasks raw of
           None \<Rightarrow> []
         | Some rs \<Rightarrow> map resetStatus (List.map_filter (normalizeTask now) rs))\<rparr>"

text \<open>
  \<open>init\<close>: \<open>file\<close> is the parsed content of config.json, \<open>None\<close> when reading or parsing it
  throws; the default configuration is used then.
\<close>

definition init :: "string \<Rightarrow> string \<Rightarrow> RawConfig option \<Rightarrow> SettingsStore" where
  "init pw now file =
     persist \<lparr>config =
                Some (case file of
                        Some raw \<Rightarrow> normalizeConfig pw now raw
                      | None \<Rightarrow> \<lparr>version = CONFIG_VERSION, settings = defaultSettings pw,
                                 tasks = []\<rparr>),
              saved = None\<rparr>"

definition notInitialized :: error where
  "notInitialized = NotInitialized ''SettingsStore is not initialized''"

text \<open>
  \<open>updateSettings\<close>: \<open>partial\<close> overrides the stored fields it carries. The merged port is a
  number, which the stored one is an instance of. A field of \<open>partial\<close> is absent or holds a
  value of its type; a key that is present with the value \<open>undefined\<close> is not represented.
\<close>

record PartialAppSettings =
  s_listenHost :: "string option"
  s_listenPort :: "number option"
  s_enableAuth :: "bool option"
  s_authUsername :: "string option"
  s_authPassword :: "string option"
  s_defaultHwAccelPolicy :: "HwAccelPolicy option"

definition override :: "'a \<Rightarrow> 'a option \<Rightarrow> 'a" where
  "override cur new = (case new of None \<Rightarrow> cur | Some v \<Rightarrow> v)"

definition updateSettings ::
  "PartialAppSettings \<Rightarrow> SettingsStore \<Rightarrow> (error + AppSettings) \<times> SettingsStore" where
  "updateSettings partial st =
     (case config st of
        None \<Rightarrow> (Inl notInitialized, st)
      | Some cfg \<Rightarrow>
          (let nextHost = override (listenHost (settings cfg)) (s_listenHost partial);
               nextPort = override (Num (of_int (listenPort (settings cfg)))) (s_listenPort partial);
               nextEnable = override (enableAuth (settings cfg)) (s_enableAuth partial);
               nextUser = override (authUsername (settings cfg)) (s_authUsername partial);
               nextPass = override (authPassword (settings cfg)) (s_authPassword partial);
               nextPolicy =
                 override (defaultHwAccelPolicy (settings cfg)) (s_defaultHwAccelPolicy partial)
           in if nextHost = [] then (Inl (InvalidSettings ''listenHost is required''), st)
              else if \<not> isInteger nextPort \<or> floorNumber nextPort \<le> 0
                      \<or> floorNumber nextPort > 65535
              then (Inl (InvalidSettings ''listenPort must be between 1 and 65535''), st)
              else if nextUser = [] then (Inl (InvalidSettings ''authUsername is required''), st)
              else if nextPass = [] then (Inl (InvalidSettings ''authPassword is required''), st)
              else
                (let next = \<lparr>listenHost = nextHost, listenPort = floorNumber nextPort,
                              enableAuth = nextEnable, authUsername = nextUser,
                              authPassword = nextPass, defaultHwAccelPolicy = nextPolicy\<rparr>
                 in (Inr next, persist (st\<lparr>config := Some (cfg\<lparr>settings := next\<rparr>)\<rparr>)))))"

text \<open>The message of a routing-key collision: \<open>RTSP path '<segment>' already exists\<close>.\<close>

definition pathTaken :: "string \<Rightarrow> error" where
  "pathTaken seg = PathTaken (''RTSP path '' @ [CHR 0x27] @ seg @ [CHR 0x27] @ '' already exists'')"

definition taskNotFound :: "string \<Rightarrow> error" where
  "taskNotFound ident = TaskNotFound (''Task '' @ ident @ '' not found'')"

definition createTask ::
  "string \<Rightarrow> string \<Rightarrow> StreamTaskPayload \<Rightarrow> SettingsStore
     \<Rightarrow> (error + StreamTask) \<times> SettingsStore" where
  "createTask uuid now payload st =
     (case config st of
        None \<Rightarrow> (Inl notInitialized, st)
      | Some cfg \<Rightarrow>
          (let pathSegment = normalizePathSegment (path payload)
           in if pathSegment = [] then (Inl (InvalidInput ''RTSP path is required''), st)
              else if trim (inputFile payload) = []
              then (Inl (InvalidInput ''Input file is required''), st)
              else if list_ex (\<lambda>item. path item = pathSegment) (tasks cfg)
              then (Inl (pathTaken pathSegment), st)
              else
                (let task = \<lparr>name = (if trim (name payload) = [] then pathSegment
                                       else trim (name payload)),
                              inputFile = trim (inputFile payload),
                              path = pathSegment,
                              transport = transport payload,
                              loop = loop payload,
                              hwAccel = hwAccel payload,
                              videoCodec = videoCodec payload,
                              audioCodec = audioCodec payload,
                              task_id = uuid,
                              bitrateKbps = toFiniteInt (p_bitrateKbps payload),
                              fps = toFiniteInt (p_fps payload),
                              status = Created,
                              lastError = None,
                              createdAt = now,
                              updatedAt = now\<rparr>
                 in (Inr task,
                     persist (st\<lparr>config := Some (cfg\<lparr>tasks := tasks cfg @ [task]\<rparr>)\<rparr>)))))"

text \<open>
  \<open>Partial<StreamTaskPayload>\<close>: a field is \<open>None\<close> when the payload does not carry it.
\<close>

record PartialPayload =
  u_name :: "string option"
  u_inputFile :: "string option"
  u_path :: "string option"
  u_transport :: "RtspTransport option"
  u_loop :: "bool option"
  u_hwAccel :: "HwAccelPolicy option"
  u_videoCodec :: "VideoCodec option"
  u_audioCodec :: "AudioCodec option"
  u_bitrateKbps :: "number option"
  u_fps :: "number option"

text \<open>
  The source changes the task object that \<open>find\<close> returned, which is the first element of
  the list with the identifier; \<open>updateFirst\<close> replaces that element.
\<close>

fun updateFirst :: "('a \<Rightarrow> bool) \<Rightarrow> ('a \<Rightarrow> 'a) \<Rightarrow> 'a list \<Rightarrow> 'a list" where
  "updateFirst P f [] = []"
| "updateFirst P f (x # xs) = (if P x then f x # xs else x # updateFirst P f xs)"

definition applyPayload :: "string \<Rightarrow> string \<Rightarrow> PartialPayload \<Rightarrow> StreamTask \<Rightarrow> StreamTask" where
  "applyPayload now nextPath payload task =
     task\<lparr>inputFile := (case u_inputFile payload of None \<Rightarrow> inputFile task | Some f \<Rightarrow> trim f),
          name := (case u_name payload of
                     None \<Rightarrow> name task
                   | Some n \<Rightarrow> if trim n = [] then nextPath else trim n),
          path := nextPath,
          transport := override (transport task) (u_transport payload),
          loop := override (loop task) (u_loop payload),
          hwAccel := override (hwAccel task) (u_hwAccel payload),
          videoCodec := override (videoCodec task) (u_videoCodec payload),
          audioCodec := override (audioCodec task) (u_audioCodec payload),
          bitrateKbps := (case u_bitrateKbps payload of
                            None \<Rightarrow> bitrateKbps task
                          | Some n \<Rightarrow> toFiniteInt (Some n)),
          fps := (case u_fps payload of None \<Rightarrow> fps task | Some n \<Rightarrow> toFiniteInt (Some n)),
          updatedAt := now\<rparr>"

definition updateTask ::
  "string \<Rightarrow> string \<Rightarrow> PartialPayload \<Rightarrow> SettingsStore
     \<Rightarrow> (error + StreamTask) \<times> SettingsStore" where
  "updateTask now ident payload st =
     (case config st of
        None \<Rightarrow> (Inl notInitialized, st)
      | Some cfg \<Rightarrow>
          (case find (\<lambda>item. task_id item = ident) (tasks cfg) of
             None \<Rightarrow> (Inl (taskNotFound ident), st)
           | Some task \<Rightarrow>
               (let nextPath = (case u_path payload of
                                  None \<Rightarrow> path task
                                | Some p \<Rightarrow> normalizePathSegment p)
                in if nextPath = [] then (Inl (InvalidInput ''RTSP path is required''), st)
                   else if list_ex (\<lambda>item. task_id item \<noteq> ident \<and> path item = nextPath)
                             (tasks cfg)
                   then (Inl (pathTaken nextPath), st)
                   else if (case u_inputFile payload of None \<Rightarrow> False | Some f \<Rightarrow> trim f = [])
                   then (Inl (InvalidInput ''Input file is required''), st)
                   else
                     (let task' = applyPayload now nextPath payload task
                      in (Inr task',
                          persist (st\<lparr>config :=
                            Some (cfg\<lparr>tasks :=
                              updateFirst (\<lambda>item. task_id item = ident) (\<lambda>_. task')
                                (tasks cfg)\<rparr>)\<rparr>))))))"

definition removeTask :: "string \<Rightarrow> SettingsStore \<Rightarrow> (error + bool) \<times> SettingsStore" where
  "removeTask ident st =
     (case config st of
        None \<Rightarrow> (Inl notInitialized, st)
      | Some cfg \<Rightarrow>
          (let kept = filter (\<lambda>task. task_id task \<noteq> ident) (tasks cfg)
           in if length kept = length (tasks cfg)
              then (Inr False, st\<lparr>config := Some (cfg\<lparr>tasks := kept\<rparr>)\<rparr>)
              else (Inr True, persist (st\<lparr>config := Some (cfg\<lparr>tasks := kept\<rparr>)\<rparr>))))"

definition updateTaskRuntimeState ::
  "string \<Rightarrow> string \<Rightarrow> StreamStatus \<Rightarrow> string option \<Rightarrow> SettingsStore
     \<Rightarrow> (error + StreamTask) \<times> SettingsStore" where
  "updateTaskRuntimeState now ident st_new err st =
     (case config st of
        None \<Rightarrow> (Inl notInitialized, st)
      | Some cfg \<Rightarrow>
          (case find (\<lambda>item. task_id item = ident) (tasks cfg) of
             None \<Rightarrow> (Inl (taskNotFound ident), st)
           | Some task \<Rightarrow>
               (let task' = task\<lparr>status := st_new, lastError := err, updatedAt := now\<rparr>
                in (Inr task',
                    persist (st\<lparr>config :=
                      Some (cfg\<lparr>tasks :=
                        updateFirst (\<lambda>item. task_id item = ident) (\<lambda>_. task')
                          (tasks cfg)\<rparr>)\<rparr>)))))"

definition getTasks :: "SettingsStore \<Rightarrow> error + StreamTask list" where
  "getTasks st = (case config st of None \<Rightarrow> Inl notInitialized | Some cfg \<Rightarrow> Inr (tasks cfg))"

definition getSettings :: "SettingsStore \<Rightarrow> error + AppSettings" where
  "getSettings st = (case config st of None \<Rightarrow> Inl notInitialized | Some cfg \<Rightarrow> Inr (settings cfg))"

section \<open>The capability detector (src/main/services/ffmpeg-capability-detector.ts)\<close>

text \<open>\<open>text.split('\n')\<close>: the pieces between line feeds, one more than there are line feeds.\<close>

fun splitLines :: "string \<Rightarrow> string list" where
  "splitLines [] = [[]]"
| "splitLines (c # cs) =
     (if c = CHR 0x0A then [] # splitLines cs
      else (case splitLines cs of [] \<Rightarrow> [[c]] | l # ls \<Rightarrow> (c # l) # ls))"

definition isFlagChar :: "char \<Rightarrow> bool" where
  "isFlagChar c = (c = CHR ''.'' \<or> c \<in> set ''ABCDEFGHIJKLMNOPQRSTUVWXYZ'')"

text \<open>
  The match of \<open>/^[A-Z\.]{6}\s+([^\s]+)/\<close>: six flag characters, at least one white-space
  character, then the captured run of characters that are not white space.
\<close>

definition matchEncoderLine :: "string \<Rightarrow> string option" where
  "matchEncoderLine l =
     (let flags = take 6 l; rest = drop 6 l;
          captured = takeWhile (\<lambda>c. \<not> isSpace c) (dropWhile isSpace rest)
      in if length flags = 6 \<and> list_all isFlagChar flags \<and> rest \<noteq> [] \<and> isSpace (hd rest)
            \<and> captured \<noteq> []
         then Some captured else None)"

text \<open>
  The set of the captured names, then \<open>sort()\<close>: the default order of JavaScript compares
  strings by code units, which is the lexicographic order of character lists.
\<close>

definition parseEncoders :: "string \<Rightarrow> string list" where
  "parseEncoders text =
     sort (remdups (List.map_filter (\<lambda>line. matchEncoderLine (trim line)) (splitLines text)))"

fun includesString :: "string \<Rightarrow> string \<Rightarrow> bool" where
  "includesString [] sub = (sub = [])"
| "includesString (c # cs) sub = (take (length sub) (c # cs) = sub \<or> includesString cs sub)"

fun hwaccelLines :: "bool \<Rightarrow> string list \<Rightarrow> string list" where
  "hwaccelLines inList [] = []"
| "hwaccelLines inList (line # rest) =
     (if line = [] then hwaccelLines inList rest
      else if includesString (toLowerCase line) ''hardware acceleration methods''
      then hwaccelLines True rest
      else if inList then line # hwaccelLines inList rest
      else hwaccelLines inList rest)"

definition parseHwaccels :: "string \<Rightarrow> string list" where
  "parseHwaccels text = hwaccelLines False (map trim (splitLines text))"

record CommandResult =
  stdout :: string
  stderr :: string
  code :: "int option"




record FFmpegCapabilityDetector =
  detectorPath :: string
  cache :: "FFmpegCapabilities option"


definition unavailable :: "FFmpegCapabilityDetector \<Rightarrow> string \<Rightarrow> FFmpegCapabilities" where
  "unavailable d err =
     \<lparr>available = False, ffmpegPath = detectorPath d, hwaccels = [], encoders = [],
      hasQsvH264 = False, hasQsvHevc = False,
      hasVideoToolboxH264 = False, hasVideoToolboxHevc = False,
      hasNvencH264 = False, hasNvencHevc = False,
      capsLastError = Some err\<rparr>"

definition capability ::
  "FFmpegCapabilityDetector \<Rightarrow> CommandResult \<Rightarrow> CommandResult \<Rightarrow> FFmpegCapabilities" where
  "capability d encodersResult hwaccelsResult =
     (let encoderText = stdout encodersResult @ [CHR 0x0A] @ stderr encodersResult;
          hwText = stdout hwaccelsResult @ [CHR 0x0A] @ stderr hwaccelsResult;
          encs = parseEncoders encoderText;
          hws = parseHwaccels hwText
      in \<lparr>available = True, ffmpegPath = detectorPath d, hwaccels = hws, encoders = encs,
          hasQsvH264 = (''h264_qsv'' \<in> set encs),
          hasQsvHevc = (''hevc_qsv'' \<in> set encs),
          hasVideoToolboxH264 = (''h264_videotoolbox'' \<in> set encs),
          hasVideoToolboxHevc = (''hevc_videotoolbox'' \<in> set encs),
          hasNvencH264 = (''h264_nvenc'' \<in> set encs),
          hasNvencHevc = (''hevc_nvenc'' \<in> set encs),
          capsLastError = None\<rparr>)"



section \<open>Process supervision (stream-job-manager.ts, rtsp-server-manager.ts)\<close>

text \<open>
  A new \<open>StreamJobManager\<close> has an empty \<open>jobs\<close> map and an empty \<open>stopping\<close> set;
  \<open>createServices\<close> of index.ts loads the store and then constructs the manager on it.
  A process handle is named by a number.
\<close>

record StreamJobManager =
  store :: SettingsStore
  jobs :: "string \<rightharpoonup> nat"
  stopping :: "string set"

definition newStreamJobManager :: "SettingsStore \<Rightarrow> StreamJobManager" where
  "newStreamJobManager st = \<lparr>store = st, jobs = Map.empty, stopping = {}\<rparr>"

definition createServices :: "string \<Rightarrow> string \<Rightarrow> RawConfig option \<Rightarrow> StreamJobManager" where
  "createServices pw now file = newStreamJobManager (init pw now file)"

text \<open>
  One call of \<open>stopTask(id)\<close>, or of \<open>stop()\<close> of the server manager, and the part of the
  supervisor it reads and writes. Both functions have the same body after their lookup;
  the fields stand for
  \<^item> \<open>exitCode\<close>: \<open>processRef.exitCode\<close>, which stays \<open>null\<close> when a signal ended the process;
  \<^item> \<open>ended\<close>: the process has terminated;
  \<^item> \<open>closeEmitted\<close>: its \<open>close\<close> event has been emitted;
  \<^item> \<open>signalsSent\<close>: the signals that \<open>kill\<close> has sent to it, oldest first;
  \<^item> \<open>registered\<close>: \<open>this.jobs.has(id)\<close>, for the server \<open>this.process !== null\<close>;
  \<^item> \<open>stopRequested\<close>: \<open>this.stopping.has(id)\<close>, for the server \<open>this.stopRequested\<close>;
  \<^item> \<open>storedStatus\<close>: the status of the task in the store, for the server \<open>this.status.state\<close>;
  \<^item> \<open>clock\<close>: milliseconds of the event loop's clock;
  \<^item> \<open>timerDue\<close>: when the pending \<open>setTimeout\<close> callback is due, \<open>None\<close> without one;
  \<^item> \<open>closeListener\<close>: the \<open>once('close')\<close> listener of the call is registered;
  \<^item> \<open>returned\<close>: the status in the record the call returned, \<open>None\<close> while it awaits.
\<close>

datatype signal = SIGTERM | SIGKILL

datatype supervisor = TaskSupervisor | ServerSupervisor

record StopSession =
  exitCode :: "int option"
  ended :: bool
  closeEmitted :: bool
  signalsSent :: "signal list"
  registered :: bool
  stopRequested :: bool
  storedStatus :: StreamStatus
  clock :: nat
  timerDue :: "nat option"
  closeListener :: bool
  returned :: "StreamStatus option"

text \<open>
  \<open>processRef.kill(signal)\<close>: the signal is sent while the process exists; on a process
  that has terminated \<open>kill\<close> sends nothing and returns false.
\<close>

definition kill :: "signal \<Rightarrow> StopSession \<Rightarrow> StopSession" where
  "kill sig s = (if ended s then s else s\<lparr>signalsSent := signalsSent s @ [sig]\<rparr>)"

text \<open>
  \<open>resolve()\<close>: the first call settles the promise; the function then returns the record
  it reads from the store.
\<close>

definition resolve :: "StopSession \<Rightarrow> StopSession" where
  "resolve s = (if returned s = None then s\<lparr>returned := Some (storedStatus s)\<rparr> else s)"

text \<open>
  The part of the call that runs at once. Without a live process the status becomes
  \<open>stopped\<close> and the call returns. With one, the stop is marked as requested, \<open>SIGTERM\<close>
  is sent, and the promise is set up with its timer of 3000 ms and its listener.
\<close>

definition stopBegin :: "StopSession \<Rightarrow> StopSession" where
  "stopBegin s =
     (if \<not> registered s then s\<lparr>storedStatus := Stopped, returned := Some Stopped\<rparr>
      else (kill SIGTERM (s\<lparr>stopRequested := True\<rparr>))
             \<lparr>timerDue := Some (clock s + 3000), closeListener := True\<rparr>)"

text \<open>The callback of \<open>setTimeout\<close>.\<close>

definition timerCallback :: "StopSession \<Rightarrow> StopSession" where
  "timerCallback s =
     resolve ((if exitCode s = None then kill SIGKILL s else s)\<lparr>timerDue := None\<rparr>)"

text \<open>
  The \<open>close\<close> handler that \<open>startTask\<close> (for the server, \<open>start\<close>) registered: the handle is
  removed and the status set, up to the first \<open>await\<close> of the handler.
\<close>

definition closeStatus :: "supervisor \<Rightarrow> bool \<Rightarrow> int option \<Rightarrow> StreamStatus" where
  "closeStatus k wasStopping c =
     (case k of
        TaskSupervisor \<Rightarrow> if wasStopping \<or> c = Some 0 then Stopped else Error
      | ServerSupervisor \<Rightarrow> if wasStopping then Stopped else Error)"

definition closeHandler :: "supervisor \<Rightarrow> StopSession \<Rightarrow> StopSession" where
  "closeHandler k s =
     s\<lparr>registered := False,
       stopRequested := False,
       storedStatus := closeStatus k (stopRequested s) (exitCode s)\<rparr>"

text \<open>The \<open>once('close')\<close> listener of the stop call: \<open>clearTimeout\<close>, then \<open>resolve\<close>.\<close>

definition stopCloseListener :: "StopSession \<Rightarrow> StopSession" where
  "stopCloseListener s =
     (if closeListener s then resolve (s\<lparr>timerDue := None, closeListener := False\<rparr>) else s)"

text \<open>
  What the event loop delivers: time passes (a timer that has become due runs), the
  process terminates with an exit code or by a signal, its \<open>close\<close> event is emitted. A
  process terminates once, and \<open>close\<close> is emitted once, after termination; the listeners
  of \<open>close\<close> run in the order of their registration.
\<close>

datatype event = Tick nat | Exit "int option" | Close

definition step :: "supervisor \<Rightarrow> event \<Rightarrow> StopSession \<Rightarrow> StopSession" where
  "step k e s =
     (case e of
        Tick d \<Rightarrow>
          (let s' = s\<lparr>clock := clock s + d\<rparr>
           in (case timerDue s' of
                 None \<Rightarrow> s'
               | Some due \<Rightarrow> if due \<le> clock s' then timerCallback s' else s'))
      | Exit c \<Rightarrow> (if ended s then s else s\<lparr>ended := True, exitCode := c\<rparr>)
      | Close \<Rightarrow>
          (if ended s \<and> \<not> closeEmitted s
           then stopCloseListener (closeHandler k (s\<lparr>closeEmitted := True\<rparr>))
           else s))"

fun run :: "supervisor \<Rightarrow> event list \<Rightarrow> StopSession \<Rightarrow> StopSession" where
  "run k [] s = s"
| "run k (e # es) s = run k es (step k e s)"

text \<open>
  A supervisor with a live process on which no stop is under way: the handle is
  registered, the process runs, no signal was sent, no timer and no listener of a stop
  call is pending.
\<close>

definition live :: "StopSession \<Rightarrow> bool" where
  "live s =
     (registered s \<and> \<not> ended s \<and> exitCode s = None \<and> \<not> closeEmitted s
      \<and> signalsSent s = [] \<and> timerDue s = None \<and> \<not> closeListener s \<and> returned s = None)"

text \<open>
  The invariant of a stop call whose timer is due at \<open>T\<close>. While the timer is pending the
  call waits: it has not returned, only \<open>SIGTERM\<close> was sent, \<open>close\<close> was not emitted and the
  clock is before \<open>T\<close>. Once the timer has run or was cleared the call has returned, and
  the clock has reached \<open>T\<close> or \<open>close\<close> was emitted.
\<close>

definition sessionInv :: "nat \<Rightarrow> StopSession \<Rightarrow> bool" where
  "sessionInv T s =
     ((\<not> ended s \<longrightarrow> exitCode s = None \<and> \<not> closeEmitted s)
      \<and> (case timerDue s of
            Some due \<Rightarrow>
              due = T \<and> clock s < T \<and> returned s = None \<and> closeListener s
              \<and> \<not> closeEmitted s \<and> signalsSent s = [SIGTERM] \<and> stopRequested s
              \<and> registered s
          | None \<Rightarrow>
              returned s \<noteq> None \<and> (T \<le> clock s \<or> closeEmitted s)
              \<and> (signalsSent s = [SIGTERM] \<or> signalsSent s = [SIGTERM, SIGKILL])))"

section \<open>The specification's wording of encoder selection\<close>

text \<open>
  The specification names the three hardware back ends by role: the vendor-specific
  hardware encoder is NVENC, the alternate hardware encoder family is QSV, the platform
  hardware encoder is VideoToolbox. Its fixed preference order, the capability flag of a
  back end for a codec family, and the name of a back end's encoder:
\<close>

definition fallbackOrder :: "HwAccelPolicy list" where
  "fallbackOrder = [Nvenc, Qsv, VideoToolbox]"

definition capabilityFlag :: "HwAccelPolicy \<Rightarrow> VideoCodec \<Rightarrow> FFmpegCapabilities \<Rightarrow> bool" where
  "capabilityFlag b codec caps =
     (case b of
        Qsv \<Rightarrow> (if codec = Hevc then hasQsvHevc caps else hasQsvH264 caps)
      | Nvenc \<Rightarrow> (if codec = Hevc then hasNvencHevc caps else hasNvencH264 caps)
      | VideoToolbox \<Rightarrow>
          (if codec = Hevc then hasVideoToolboxHevc caps else hasVideoToolboxH264 caps)
      | _ \<Rightarrow> True)"

definition hardwareEncoderName :: "HwAccelPolicy \<Rightarrow> VideoCodec \<Rightarrow> string" where
  "hardwareEncoderName b codec =
     (case b of
        Qsv \<Rightarrow> (if codec = Hevc then ''hevc_qsv'' else ''h264_qsv'')
      | Nvenc \<Rightarrow> (if codec = Hevc then ''hevc_nvenc'' else ''h264_nvenc'')
      | VideoToolbox \<Rightarrow>
          (if codec = Hevc then ''hevc_videotoolbox'' else ''h264_videotoolbox'')
      | _ \<Rightarrow> [])"


definition softwareEncoder :: "VideoCodec \<Rightarrow> string" where
  "softwareEncoder codec = (if codec = Hevc then ''libx265'' else ''libx264'')"

definition firstAvailable :: "VideoCodec \<Rightarrow> FFmpegCapabilities \<Rightarrow> EncoderChoice" where
  "firstAvailable codec caps =
     (case find (\<lambda>b. capabilityFlag b codec caps) fallbackOrder of
        None \<Rightarrow> \<lparr>policy = Policy Cpu, encoder = softwareEncoder codec\<rparr>
      | Some b \<Rightarrow> \<lparr>policy = Policy b, encoder = hardwareEncoderName b codec\<rparr>)"

section \<open>The specification's wording of the settings invariants\<close>

text \<open>
  The candidate of a settings update is the stored record overridden by the fields of the
  payload. The specification's invariants on it: the host is not empty, the port is an
  integer from 1 to 65535, the user name and the password are not empty.
\<close>

definition mergedPort :: "AppSettings \<Rightarrow> PartialAppSettings \<Rightarrow> number" where
  "mergedPort cur partial = override (Num (of_int (listenPort cur))) (s_listenPort partial)"

definition portInRange :: "number \<Rightarrow> bool" where
  "portInRange n = (case n of Num q \<Rightarrow> q = of_int \<lfloor>q\<rfloor> \<and> 1 \<le> q \<and> q \<le> 65535 | _ \<Rightarrow> False)"

definition validMerge :: "AppSettings \<Rightarrow> PartialAppSettings \<Rightarrow> bool" where
  "validMerge cur partial =
     (override (listenHost cur) (s_listenHost partial) \<noteq> []
      \<and> portInRange (mergedPort cur partial)
      \<and> override (authUsername cur) (s_authUsername partial) \<noteq> []
      \<and> override (authPassword cur) (s_authPassword partial) \<noteq> [])"

definition mergeSettings :: "AppSettings \<Rightarrow> PartialAppSettings \<Rightarrow> AppSettings" where
  "mergeSettings cur partial =
     \<lparr>listenHost = override (listenHost cur) (s_listenHost partial),
      listenPort = floorNumber (mergedPort cur partial),
      enableAuth = override (enableAuth cur) (s_enableAuth partial),
      authUsername = override (authUsername cur) (s_authUsername partial),
      authPassword = override (authPassword cur) (s_authPassword partial),
      defaultHwAccelPolicy =
        override (defaultHwAccelPolicy cur) (s_defaultHwAccelPolicy partial)\<rparr>"

section \<open>The file the store writes\<close>

text \<open>
  \<open>persist\<close> writes \<open>JSON.stringify(config)\<close>, and the next start parses that text. The
  composition of the two on a task: every field is present with its value, a
  string-literal union as its string, an optional field that is \<open>undefined\<close> is absent.
\<close>

definition statusName :: "StreamStatus \<Rightarrow> string" where
  "statusName s =
     (case s of Created \<Rightarrow> ''created'' | Starting \<Rightarrow> ''starting'' | Running \<Rightarrow> ''running''
      | Stopped \<Rightarrow> ''stopped'' | Error \<Rightarrow> ''error'')"

definition hwAccelName :: "HwAccelPolicy \<Rightarrow> string" where
  "hwAccelName p =
     (case p of Auto \<Rightarrow> ''auto'' | Cpu \<Rightarrow> ''cpu'' | Qsv \<Rightarrow> ''qsv''
      | VideoToolbox \<Rightarrow> ''videotoolbox'' | Nvenc \<Rightarrow> ''nvenc'')"

definition videoCodecName :: "VideoCodec \<Rightarrow> string" where
  "videoCodecName c = (case c of VCopy \<Rightarrow> ''copy'' | H264 \<Rightarrow> ''h264'' | Hevc \<Rightarrow> ''hevc'')"

definition audioCodecName :: "AudioCodec \<Rightarrow> string" where
  "audioCodecName c =
     (case c of ACopy \<Rightarrow> ''copy'' | Aac \<Rightarrow> ''aac'' | Opus \<Rightarrow> ''opus'' | ANone \<Rightarrow> ''none'')"

definition serializeTask :: "StreamTask \<Rightarrow> RawTask" where
  "serializeTask t =
     \<lparr>r_id = Some (task_id t), r_name = Some (name t), r_inputFile = Some (inputFile t),
      r_path = Some (path t), r_transport = Some (transportName (transport t)),
      r_loop = Some (loop t), r_hwAccel = Some (hwAccelName (hwAccel t)),
      r_videoCodec = Some (videoCodecName (videoCodec t)),
      r_audioCodec = Some (audioCodecName (audioCodec t)),
      r_bitrateKbps = map_option (\<lambda>n. Num (of_nat n)) (bitrateKbps t),
      r_fps = map_option (\<lambda>n. Num (of_nat n)) (fps t),
      r_status = Some (statusName (status t)), r_lastError = lastError t,
      r_createdAt = Some (createdAt t), r_updatedAt = Some (updatedAt t)\<rparr>"

definition serializeSettings :: "AppSettings \<Rightarrow> RawSettings" where
  "serializeSettings s =
     \<lparr>rs_listenHost = Some (listenHost s), rs_listenPort = Some (Num (of_int (listenPort s))),
      rs_authUsername = Some (authUsername s), rs_authPassword = Some (authPassword s),
      rs_defaultHwAccelPolicy = Some (hwAccelName (defaultHwAccelPolicy s))\<rparr>"

definition serializeConfig :: "AppConfig \<Rightarrow> RawConfig" where
  "serializeConfig c =
     \<lparr>rc_settings = Some (serializeSettings (settings c)),
      rc_tasks = Some (map serializeTask (tasks c))\<rparr>"

text \<open>
  What \<open>createTask\<close> and \<open>updateTask\<close> establish for a task they store: its identifier,
  name and input file are not empty, and its path is a normalized key that is not empty.
\<close>

definition storedOk :: "StreamTask \<Rightarrow> bool" where
  "storedOk t =
     (task_id t \<noteq> [] \<and> name t \<noteq> [] \<and> inputFile t \<noteq> [] \<and> path t \<noteq> []
      \<and> normalizePathSegment (path t) = path t)"

text \<open>The identifier, path and status of a task.\<close>

definition summary :: "StreamTask \<Rightarrow> string \<times> string \<times> StreamStatus" where
  "summary t = (task_id t, path t, status t)"

section \<open>Sample inputs\<close>

definition noCaps :: FFmpegCapabilities where
  "noCaps =
     \<lparr>available = False, ffmpegPath = ''/bin/ffmpeg'', hwaccels = [], encoders = [],
      hasQsvH264 = False, hasQsvHevc = False,
      hasVideoToolboxH264 = False, hasVideoToolboxHevc = False,
      hasNvencH264 = False, hasNvencHevc = False, capsLastError = Some ''missing''\<rparr>"

definition nvencOnlyCaps :: FFmpegCapabilities where
  "nvencOnlyCaps =
     noCaps\<lparr>available := True, encoders := [''h264_nvenc'', ''hevc_nvenc''],
            hasNvencH264 := True, hasNvencHevc := True, capsLastError := None\<rparr>"

definition sampleTask :: StreamTask where
  "sampleTask =
     \<lparr>name = ''Demo'', inputFile = ''/video/demo.mp4'', path = ''Demo-Room'',
      transport = Tcp, loop = True, hwAccel = Auto, videoCodec = H264, audioCodec = Aac,
      task_id = ''t1'', bitrateKbps = Some 2500, fps = None, status = Created,
      lastError = None, createdAt = ''2024-01-01T00:00:00.000Z'',
      updatedAt = ''2024-01-01T00:00:00.000Z''\<rparr>"

definition sampleSettings :: AppSettings where
  "sampleSettings =
     \<lparr>listenHost = ''0.0.0.0'', listenPort = 8554, enableAuth = True,
      authUsername = ''rtsp user'', authPassword = ''p@ss'', defaultHwAccelPolicy = Auto\<rparr>"

definition sampleStore :: SettingsStore where
  "sampleStore = init ''secret'' ''2024-01-01T00:00:00.000Z'' None"

definition demoPayload :: StreamTaskPayload where
  "demoPayload =
     \<lparr>name = ''Demo'', inputFile = ''/video/demo.mp4'', path = ''Demo Room'',
      transport = Tcp, loop = True, hwAccel = Auto, videoCodec = H264, audioCodec = Aac,
      p_bitrateKbps = Some (Num 2500), p_fps = None\<rparr>"

definition noChange :: PartialAppSettings where
  "noChange =
     \<lparr>s_listenHost = None, s_listenPort = None, s_enableAuth = None, s_authUsername = None,
      s_authPassword = None, s_defaultHwAccelPolicy = None\<rparr>"

definition noPayload :: PartialPayload where
  "noPayload =
     \<lparr>u_name = None, u_inputFile = None, u_path = None, u_transport = None, u_loop = None,
      u_hwAccel = None, u_videoCodec = None, u_audioCodec = None, u_bitrateKbps = None,
      u_fps = None\<rparr>"

definition demoTask :: StreamTask where
  "demoTask =
     \<lparr>name = ''Demo'', inputFile = ''/video/demo.mp4'', path = ''Demo-Room'',
      transport = Tcp, loop = True, hwAccel = Auto, videoCodec = H264, audioCodec = Aac,
      task_id = ''id-1'', bitrateKbps = Some 2500, fps = None, status = Created,
      lastError = None, createdAt = ''2024-01-02T00:00:00.000Z'',
      updatedAt = ''2024-01-02T00:00:00.000Z''\<rparr>"

definition demoStore :: SettingsStore where
  "demoStore =
     \<lparr>config = Some \<lparr>version = 1, settings = defaultSettings ''secret'', tasks = [demoTask]\<rparr>,
      saved = Some \<lparr>version = 1, settings = defaultSettings ''secret'', tasks = [demoTask]\<rparr>\<rparr>"

definition runningRaw :: RawTask where
  "runningRaw = serializeTask (demoTask\<lparr>status := Running\<rparr>)"

definition errorRaw :: RawTask where
  "errorRaw = serializeTask (demoTask\<lparr>task_id := ''id-2'', path := ''second'', status := Error\<rparr>)"

definition sampleFile :: RawConfig where
  "sampleFile = \<lparr>rc_settings = None, rc_tasks = Some [runningRaw, errorRaw]\<rparr>"



definition liveSession :: StopSession where
  "liveSession =
     \<lparr>exitCode = None, ended = False, closeEmitted = False, signalsSent = [],
      registered = True, stopRequested = False, storedStatus = Running, clock = 0,
      timerDue = None, closeListener = False, returned = None\<rparr>"

section \<open>Encoder selection: results\<close>

lemmas encoder_defs = codecPrefix_def cpuEncoder_def qsvEncoder_def nvencEncoder_def
  videoToolboxEncoder_def canUseQsv_def canUseNvenc_def canUseVideoToolbox_def

text \<open>
  Claim C1. A task that re-encodes (its video codec is not \<open>copy\<close>) and says \<open>auto\<close>, under
  a global default that is \<open>auto\<close> too, gets the first back end of the order NVENC, QSV,
  VideoToolbox whose capability flag for the task's codec family is set, and the software
  encoder when none is set. The encoder is the one of that back end for the task's codec
  family, by its name: \<open>hevc_nvenc\<close>, \<open>hevc_qsv\<close>, \<open>hevc_videotoolbox\<close> for HEVC and
  \<open>h264_nvenc\<close>, \<open>h264_qsv\<close>, \<open>h264_videotoolbox\<close> otherwise. In particular, when only
  NVENC is available it is selected, and when nothing is available the software encoder
  is selected. In a snapshot that a scan computed, a selected hardware encoder is in the
  list of encoders.
\<close>

theorem auto_policy_falls_back_in_order:
  assumes "videoCodec task \<noteq> VCopy" and "hwAccel task = Auto"
    and "defaultHwAccelPolicy stg = Auto"
  shows "selectEncoder task stg caps = Inr (firstAvailable (videoCodec task) caps)
     \<and> selectEncoder task stg caps
         = Inr (if capabilityFlag Nvenc (videoCodec task) caps
                then \<lparr>policy = Policy Nvenc,
                      encoder = (if videoCodec task = Hevc then ''hevc_nvenc''
                                 else ''h264_nvenc'')\<rparr>
                else if capabilityFlag Qsv (videoCodec task) caps
                then \<lparr>policy = Policy Qsv,
                      encoder = (if videoCodec task = Hevc then ''hevc_qsv''
                                 else ''h264_qsv'')\<rparr>
                else if capabilityFlag VideoToolbox (videoCodec task) caps
                then \<lparr>policy = Policy VideoToolbox,
                      encoder = (if videoCodec task = Hevc then ''hevc_videotoolbox''
                                 else ''h264_videotoolbox'')\<rparr>
                else \<lparr>policy = Policy Cpu,
                      encoder = (if videoCodec task = Hevc then ''libx265''
                                 else ''libx264'')\<rparr>)
     \<and> (capabilityFlag Nvenc (videoCodec task) caps
          \<and> \<not> capabilityFlag Qsv (videoCodec task) caps
          \<and> \<not> capabilityFlag VideoToolbox (videoCodec task) caps
        \<longrightarrow> selectEncoder task stg caps
              = Inr \<lparr>policy = Policy Nvenc,
                     encoder = (if videoCodec task = Hevc then ''hevc_nvenc''
                                else ''h264_nvenc'')\<rparr>)
     \<and> (\<not> capabilityFlag Nvenc (videoCodec task) caps
          \<and> \<not> capabilityFlag Qsv (videoCodec task) caps
          \<and> \<not> capabilityFlag VideoToolbox (videoCodec task) caps
        \<longrightarrow> selectEncoder task stg caps
              = Inr \<lparr>policy = Policy Cpu, encoder = softwareEncoder (videoCodec task)\<rparr>)
     \<and> (caps = capability d er hr
          \<and> policy (firstAvailable (videoCodec task) caps) \<noteq> Policy Cpu
        \<longrightarrow> encoder (firstAvailable (videoCodec task) caps) \<in> set (encoders caps))"
proof -
  have sel: "selectEncoder task stg caps = Inr (firstAvailable (videoCodec task) caps)"
    using assms
    by (simp add: selectEncoder_def requested_def firstAvailable_def fallbackOrder_def
        capabilityFlag_def hardwareEncoderName_def softwareEncoder_def encoder_defs)
  have chain: "firstAvailable (videoCodec task) caps
         = (if capabilityFlag Nvenc (videoCodec task) caps
                then \<lparr>policy = Policy Nvenc,
                      encoder = (if videoCodec task = Hevc then ''hevc_nvenc''
                                 else ''h264_nvenc'')\<rparr>
                else if capabilityFlag Qsv (videoCodec task) caps
                then \<lparr>policy = Policy Qsv,
                      encoder = (if videoCodec task = Hevc then ''hevc_qsv''
                                 else ''h264_qsv'')\<rparr>
                else if capabilityFlag VideoToolbox (videoCodec task) caps
                then \<lparr>policy = Policy VideoToolbox,
                      encoder = (if videoCodec task = Hevc then ''hevc_videotoolbox''
                                 else ''h264_videotoolbox'')\<rparr>
                else \<lparr>policy = Policy Cpu,
                      encoder = (if videoCodec task = Hevc then ''libx265''
                                 else ''libx264'')\<rparr>)"
    by (simp add: firstAvailable_def fallbackOrder_def hardwareEncoderName_def
        softwareEncoder_def)
  have listed: "caps = capability d er hr
          \<and> policy (firstAvailable (videoCodec task) caps) \<noteq> Policy Cpu
        \<longrightarrow> encoder (firstAvailable (videoCodec task) caps) \<in> set (encoders caps)"
    unfolding chain
    by (auto simp: capabilityFlag_def capability_def Let_def split: if_splits)
  from sel chain listed show ?thesis
    by (simp add: softwareEncoder_def)
qed

text \<open>
  The theorem at an H.264 task and at HEVC tasks: NVENC alone, QSV and VideoToolbox
  without NVENC, and nothing available.
\<close>

theorem auto_policy_falls_back_in_order_witness:
  "videoCodec sampleTask \<noteq> VCopy \<and> hwAccel sampleTask = Auto
   \<and> defaultHwAccelPolicy sampleSettings = Auto
   \<and> selectEncoder sampleTask sampleSettings nvencOnlyCaps
       = Inr \<lparr>policy = Policy Nvenc, encoder = ''h264_nvenc''\<rparr>
   \<and> selectEncoder sampleTask sampleSettings noCaps
       = Inr \<lparr>policy = Policy Cpu, encoder = ''libx264''\<rparr>
   \<and> videoCodec (sampleTask\<lparr>videoCodec := Hevc\<rparr>) \<noteq> VCopy
   \<and> hwAccel (sampleTask\<lparr>videoCodec := Hevc\<rparr>) = Auto
   \<and> selectEncoder (sampleTask\<lparr>videoCodec := Hevc\<rparr>) sampleSettings nvencOnlyCaps
       = Inr \<lparr>policy = Policy Nvenc, encoder = ''hevc_nvenc''\<rparr>
   \<and> selectEncoder (sampleTask\<lparr>videoCodec := Hevc\<rparr>) sampleSettings
        (noCaps\<lparr>hasQsvHevc := True, hasVideoToolboxHevc := True, hasNvencH264 := True\<rparr>)
       = Inr \<lparr>policy = Policy Qsv, encoder = ''hevc_qsv''\<rparr>
   \<and> selectEncoder (sampleTask\<lparr>videoCodec := Hevc\<rparr>) sampleSettings
        (noCaps\<lparr>hasVideoToolboxHevc := True, hasQsvH264 := True\<rparr>)
       = Inr \<lparr>policy = Policy VideoToolbox, encoder = ''hevc_videotoolbox''\<rparr>
   \<and> selectEncoder (sampleTask\<lparr>videoCodec := Hevc\<rparr>) sampleSettings noCaps
       = Inr \<lparr>policy = Policy Cpu, encoder = ''libx265''\<rparr>"
proof -
  let ?hevc = "sampleTask\<lparr>videoCodec := Hevc\<rparr>"
  have h: "videoCodec sampleTask \<noteq> VCopy" "hwAccel sampleTask = Auto"
    "defaultHwAccelPolicy sampleSettings = Auto"
    "videoCodec ?hevc \<noteq> VCopy" "hwAccel ?hevc = Auto"
    by (simp_all add: sampleTask_def sampleSettings_def)
  have 1: "selectEncoder sampleTask sampleSettings nvencOnlyCaps
       = Inr \<lparr>policy = Policy Nvenc, encoder = ''h264_nvenc''\<rparr>"
    using auto_policy_falls_back_in_order
        [where caps = nvencOnlyCaps, OF h(1,2,3), THEN conjunct2, THEN conjunct1]
    by (simp add: sampleTask_def nvencOnlyCaps_def noCaps_def capabilityFlag_def)
  have 2: "selectEncoder sampleTask sampleSettings noCaps
       = Inr \<lparr>policy = Policy Cpu, encoder = ''libx264''\<rparr>"
    using auto_policy_falls_back_in_order
        [where caps = noCaps, OF h(1,2,3), THEN conjunct2, THEN conjunct1]
    by (simp add: sampleTask_def noCaps_def capabilityFlag_def)
  have 3: "selectEncoder ?hevc sampleSettings nvencOnlyCaps
       = Inr \<lparr>policy = Policy Nvenc, encoder = ''hevc_nvenc''\<rparr>"
    using auto_policy_falls_back_in_order
        [where caps = nvencOnlyCaps, OF h(4,5,3), THEN conjunct2, THEN conjunct1]
    by (simp add: sampleTask_def nvencOnlyCaps_def noCaps_def capabilityFlag_def)
  have 4: "selectEncoder ?hevc sampleSettings
        (noCaps\<lparr>hasQsvHevc := True, hasVideoToolboxHevc := True, hasNvencH264 := True\<rparr>)
       = Inr \<lparr>policy = Policy Qsv, encoder = ''hevc_qsv''\<rparr>"
    using auto_policy_falls_back_in_order
        [where caps = "noCaps\<lparr>hasQsvHevc := True, hasVideoToolboxHevc := True, hasNvencH264 := True\<rparr>", OF h(4,5,3), THEN conjunct2, THEN conjunct1]
    by (simp add: sampleTask_def noCaps_def capabilityFlag_def)
  have 5: "selectEncoder ?hevc sampleSettings
        (noCaps\<lparr>hasVideoToolboxHevc := True, hasQsvH264 := True\<rparr>)
       = Inr \<lparr>policy = Policy VideoToolbox, encoder = ''hevc_videotoolbox''\<rparr>"
    using auto_policy_falls_back_in_order
        [where caps = "noCaps\<lparr>hasVideoToolboxHevc := True, hasQsvH264 := True\<rparr>", OF h(4,5,3), THEN conjunct2, THEN conjunct1]
    by (simp add: sampleTask_def noCaps_def capabilityFlag_def)
  have 6: "selectEncoder ?hevc sampleSettings noCaps
       = Inr \<lparr>policy = Policy Cpu, encoder = ''libx265''\<rparr>"
    using auto_policy_falls_back_in_order
        [where caps = noCaps, OF h(4,5,3), THEN conjunct2, THEN conjunct1]
    by (simp add: sampleTask_def noCaps_def capabilityFlag_def)
  from h 1 2 3 4 5 6 show ?thesis by blast
qed



text \<open>
  Claim C10. A task that re-encodes and whose effective policy is \<open>cpu\<close> (it says \<open>cpu\<close>, or
  it says \<open>auto\<close> under a global default of \<open>cpu\<close>): encoder selection succeeds with the
  software encoder, \<open>libx265\<close> for HEVC and \<open>libx264\<close> otherwise, whatever the capability
  snapshot holds.
\<close>

theorem cpu_policy_selects_software_encoder:
  assumes "videoCodec task \<noteq> VCopy"
    and "hwAccel task = Cpu \<or> (hwAccel task = Auto \<and> defaultHwAccelPolicy stg = Cpu)"
  shows "selectEncoder task stg caps
           = Inr \<lparr>policy = Policy Cpu,
                  encoder = (if videoCodec task = Hevc then ''libx265'' else ''libx264'')\<rparr>"
  using assms
  by (auto simp add: selectEncoder_def requested_def cpuEncoder_def)

theorem cpu_policy_selects_software_encoder_witness:
  "videoCodec (sampleTask\<lparr>videoCodec := Hevc\<rparr>) \<noteq> VCopy
   \<and> hwAccel (sampleTask\<lparr>videoCodec := Hevc\<rparr>) = Auto
   \<and> defaultHwAccelPolicy (sampleSettings\<lparr>defaultHwAccelPolicy := Cpu\<rparr>) = Cpu
   \<and> \<not> available noCaps
   \<and> selectEncoder (sampleTask\<lparr>videoCodec := Hevc\<rparr>)
         (sampleSettings\<lparr>defaultHwAccelPolicy := Cpu\<rparr>) noCaps
       = Inr \<lparr>policy = Policy Cpu, encoder = ''libx265''\<rparr>"
  using cpu_policy_selects_software_encoder
          [of "sampleTask\<lparr>videoCodec := Hevc\<rparr>"
              "sampleSettings\<lparr>defaultHwAccelPolicy := Cpu\<rparr>" noCaps]
  by (simp add: sampleTask_def sampleSettings_def noCaps_def)

section \<open>Routing keys: results\<close>

lemma collapseWhitespace_no_space: "list_all (\<lambda>c. \<not> isSpace c) (collapseWhitespace s)"
proof (induction s rule: collapseWhitespace.induct)
  case 1
  show ?case by simp
next
  case (2 c cs)
  have "\<not> isSpace (CHR ''-'')" by (simp add: isSpace_def)
  with 2 show ?case by simp
qed

lemma collapseWhitespace_Nil_iff: "collapseWhitespace s = [] \<longleftrightarrow> s = []"
  by (cases s) simp_all

lemma collapseWhitespace_fixed:
  "list_all (\<lambda>c. \<not> isSpace c) s \<Longrightarrow> collapseWhitespace s = s"
  by (induction s) simp_all

lemma collapseWhitespace_run:
  assumes "list_all (\<lambda>c. \<not> isSpace c) a" and "ws \<noteq> []" and "list_all isSpace ws"
    and "b = [] \<or> \<not> isSpace (hd b)"
  shows "collapseWhitespace (a @ ws @ b) = a @ ''-'' @ collapseWhitespace b"
  using assms(1)
proof (induction a)
  case Nil
  obtain w ws' where ws: "ws = w # ws'" using assms(2) by (cases ws) auto
  have "dropWhile isSpace (ws' @ b) = b"
    using assms(3,4) ws by (cases b) (auto simp: list_all_iff dropWhile_append)
  with ws assms(3) show ?case by simp
next
  case (Cons c a)
  then show ?case by simp
qed

lemma hd_collapseWhitespace:
  "s \<noteq> [] \<Longrightarrow> hd s \<noteq> CHR ''/'' \<Longrightarrow> hd (collapseWhitespace s) \<noteq> CHR ''/''"
  by (cases s) simp_all

lemma trim_fixed:
  assumes "s \<noteq> []" and "\<not> isSpace (hd s)" and "\<not> isSpace (last s)"
  shows "trim s = s"
proof -
  have 1: "dropWhile isSpace s = s"
    using assms(2) by (simp add: dropWhile_eq_self_iff)
  have "hd (rev s) = last s" using assms(1) by (simp add: hd_rev)
  then have "dropWhile isSpace (rev s) = rev s"
    using assms(3) by (simp add: dropWhile_eq_self_iff)
  with 1 show ?thesis by (simp add: trim_def)
qed

lemma normalizePathSegment_no_leading_slash:
  assumes "normalizePathSegment v \<noteq> []"
  shows "hd (normalizePathSegment v) \<noteq> CHR ''/''"
proof -
  let ?t = "stripLeadingSlashes (trim v)"
  from assms have ne: "?t \<noteq> []"
    by (simp add: normalizePathSegment_def collapseWhitespace_Nil_iff)
  then have "hd ?t \<noteq> CHR ''/''"
    unfolding stripLeadingSlashes_def using hd_dropWhile [of "\<lambda>c. c = CHR ''/''" "trim v"] by simp
  with ne show ?thesis by (simp add: normalizePathSegment_def hd_collapseWhitespace)
qed

lemma normalizePathSegment_words:
  assumes a: "a \<noteq> []" "list_all (\<lambda>c. \<not> isSpace c) a" "hd a \<noteq> CHR ''/''"
    and ws: "ws \<noteq> []" "list_all isSpace ws"
    and b: "b \<noteq> []" "list_all (\<lambda>c. \<not> isSpace c) b"
  shows "normalizePathSegment (a @ ws @ b) = a @ ''-'' @ b"
proof -
  have "\<not> isSpace (hd a)" "\<not> isSpace (last b)" "\<not> isSpace (hd b)"
    using a(1,2) b by (auto simp: list_all_iff)
  then have t: "trim (a @ ws @ b) = a @ ws @ b"
    using a(1) b(1) by (intro trim_fixed) simp_all
  have s: "stripLeadingSlashes (a @ ws @ b) = a @ ws @ b"
    using a(1,3) by (cases a) (simp_all add: stripLeadingSlashes_def)
  have "collapseWhitespace (a @ ws @ b) = a @ ''-'' @ collapseWhitespace b"
    using a(2) ws \<open>\<not> isSpace (hd b)\<close> by (intro collapseWhitespace_run) simp_all
  with t s b(2) show ?thesis
    by (simp add: normalizePathSegment_def collapseWhitespace_fixed)
qed

lemma demo_room_normalized: "normalizePathSegment ''Demo Room'' = ''Demo-Room''"
  by (simp add: normalizePathSegment_def trim_def stripLeadingSlashes_def isSpace_def)


lemma normalizePathSegment_slashes:
  assumes "a \<noteq> []" and "\<not> isSpace (hd a)"
  shows "normalizePathSegment (replicate n (CHR ''/'') @ a) = normalizePathSegment a"
proof -
  let ?sl = "replicate n (CHR ''/'')"
  have ns: "\<not> isSpace (CHR ''/'')" by (simp add: isSpace_def)
  have "?sl @ a \<noteq> []" and "\<not> isSpace (hd (?sl @ a))"
    using assms ns by (cases n; simp)+
  then have 1: "dropWhile isSpace (?sl @ a) = ?sl @ a"
    by (simp only: dropWhile_eq_self_iff) simp
  have 2: "dropWhile isSpace a = a"
    using assms(2) by (simp add: dropWhile_eq_self_iff)
  have "hd a \<in> set (rev a)" using assms(1) by simp
  then have "dropWhile isSpace (rev a @ rev ?sl) = dropWhile isSpace (rev a) @ rev ?sl"
    using assms(2) by (intro dropWhile_append1)
  then have "trim (?sl @ a) = ?sl @ trim a"
    using 1 2 by (simp add: trim_def)
  moreover have "dropWhile (\<lambda>c. c = CHR ''/'') (?sl @ trim a)
      = dropWhile (\<lambda>c. c = CHR ''/'') (trim a)"
    by (rule dropWhile_append2) simp
  ultimately show ?thesis
    by (simp add: normalizePathSegment_def stripLeadingSlashes_def)
qed

lemma trim_surrounding:
  assumes "list_all isSpace l" and "list_all isSpace r"
  shows "trim (l @ v @ r) = trim v"
proof -
  have l: "dropWhile isSpace (l @ v @ r) = dropWhile isSpace (v @ r)"
    using assms(1) by (intro dropWhile_append2) (simp add: list_all_iff)
  have rr: "list_all isSpace (rev r)" using assms(2) by (simp add: list_all_iff)
  show ?thesis
  proof (cases "list_all isSpace v")
    case True
    have a: "dropWhile isSpace (l @ v @ r) = []"
      using assms True by (simp add: list_all_iff)
    have b: "dropWhile isSpace v = []"
      using True by (simp add: list_all_iff)
    show ?thesis unfolding trim_def a b by simp
  next
    case False
    then obtain x where x: "x \<in> set v" "\<not> isSpace x" by (auto simp: list_all_iff)
    then have "dropWhile isSpace (v @ r) = dropWhile isSpace v @ r"
      by (intro dropWhile_append1)
    moreover have "dropWhile isSpace (rev r @ rev (dropWhile isSpace v))
        = dropWhile isSpace (rev (dropWhile isSpace v))"
      using rr by (intro dropWhile_append2) (simp add: list_all_iff)
    ultimately show ?thesis unfolding trim_def l by simp
  qed
qed

lemma normalizePathSegment_trims:
  assumes "list_all isSpace l" and "list_all isSpace r"
  shows "normalizePathSegment (l @ v @ r) = normalizePathSegment v"
  using trim_surrounding [OF assms] by (simp add: normalizePathSegment_def)

lemma demo_room_trimmed:
  "normalizePathSegment ([CHR 0x20, CHR 0x09] @ ''/Demo  Room'' @ [CHR 0x20, CHR 0x0A])
     = ''Demo-Room''"
  by (simp add: normalizePathSegment_def trim_def stripLeadingSlashes_def isSpace_def)

text \<open>
  Claim C6, amended. The store's \<open>normalizePathSegment\<close> and the synthesizer's \<open>safeSegment\<close>
  are the same function. White space around the key is trimmed: a key and the same key
  with white space before and after it have the same result, and
  \<open>Demo Room\<close> with a slash before and white space around it becomes \<open>Demo-Room\<close>. The
  result holds no white space and does not begin with a slash; leading slashes of the
  key are stripped; a run of white space between two words becomes one hyphen. The case of letters is kept: \<open>Demo Room\<close> becomes \<open>Demo-Room\<close>. For a task
  whose routing key normalizes to the empty string command synthesis fails, and it fails
  with \<open>InvalidTask\<close> whenever encoder selection, which runs first, succeeds.
\<close>

theorem routing_key_normalization:
  "normalizePathSegment v = safeSegment v
   \<and> list_all (\<lambda>c. \<not> isSpace c) (normalizePathSegment v)
   \<and> (normalizePathSegment v \<noteq> [] \<longrightarrow> hd (normalizePathSegment v) \<noteq> CHR ''/'')
   \<and> (a \<noteq> [] \<and> \<not> isSpace (hd a) \<longrightarrow>
        normalizePathSegment (replicate n (CHR ''/'') @ a) = normalizePathSegment a)
   \<and> (a \<noteq> [] \<and> list_all (\<lambda>c. \<not> isSpace c) a \<and> hd a \<noteq> CHR ''/''
        \<and> ws \<noteq> [] \<and> list_all isSpace ws
        \<and> b \<noteq> [] \<and> list_all (\<lambda>c. \<not> isSpace c) b \<longrightarrow>
        normalizePathSegment (a @ ws @ b) = a @ ''-'' @ b)
   \<and> normalizePathSegment ''Demo Room'' = ''Demo-Room''
   \<and> (list_all isSpace l \<and> list_all isSpace r \<longrightarrow>
        normalizePathSegment (l @ v @ r) = normalizePathSegment v)
   \<and> normalizePathSegment ([CHR 0x20, CHR 0x09] @ ''/Demo  Room'' @ [CHR 0x20, CHR 0x0A])
       = ''Demo-Room''
   \<and> (safeSegment (path task) = [] \<longrightarrow>
        (\<exists>e. buildFFmpegCommand task stg caps = Inl e)
        \<and> (\<forall>choice. selectEncoder task stg caps = Inr choice \<longrightarrow>
              buildFFmpegCommand task stg caps = Inl (InvalidTask ''Task path is empty'')))"
proof -
  have 1: "normalizePathSegment v = safeSegment v"
    by (simp add: normalizePathSegment_def safeSegment_def)
  have 2: "list_all (\<lambda>c. \<not> isSpace c) (normalizePathSegment v)"
    by (simp add: normalizePathSegment_def collapseWhitespace_no_space)
  have 3: "safeSegment (path task) = [] \<longrightarrow>
        (\<exists>e. buildFFmpegCommand task stg caps = Inl e)
        \<and> (\<forall>choice. selectEncoder task stg caps = Inr choice \<longrightarrow>
              buildFFmpegCommand task stg caps = Inl (InvalidTask ''Task path is empty''))"
    by (cases "selectEncoder task stg caps") (simp_all add: buildFFmpegCommand_def)
  show ?thesis
    using 1 2 3 normalizePathSegment_no_leading_slash [of v]
      normalizePathSegment_slashes [of a n] normalizePathSegment_words [of a ws b]
      demo_room_normalized normalizePathSegment_trims [of l r v] demo_room_trimmed
    by blast
qed

text \<open>
  The theorem at the keys \<open>//Demo\<close>, \<open>Demo\<close> between white space, and \<open>Demo\<close>, space, tab,
  \<open>Room\<close>, and at a task whose key is a single slash.
\<close>

theorem routing_key_normalization_witness:
  "normalizePathSegment ''//Demo'' = normalizePathSegment ''Demo''
   \<and> normalizePathSegment ([CHR 0x20] @ ''Demo'' @ [CHR 0x09, CHR 0x20]) = ''Demo''
   \<and> normalizePathSegment (''Demo'' @ [CHR 0x20, CHR 0x09] @ ''Room'') = ''Demo-Room''
   \<and> hd (normalizePathSegment ''Demo'') \<noteq> CHR ''/''
   \<and> safeSegment (path (sampleTask\<lparr>path := ''/''\<rparr>)) = []
   \<and> selectEncoder (sampleTask\<lparr>path := ''/''\<rparr>) sampleSettings noCaps
       = Inr \<lparr>policy = Policy Cpu, encoder = ''libx264''\<rparr>
   \<and> buildFFmpegCommand (sampleTask\<lparr>path := ''/''\<rparr>) sampleSettings noCaps
       = Inl (InvalidTask ''Task path is empty'')"
proof -
  have s: "safeSegment (path (sampleTask\<lparr>path := ''/''\<rparr>)) = []"
    by (simp add: safeSegment_def trim_def stripLeadingSlashes_def isSpace_def)
  have e: "selectEncoder (sampleTask\<lparr>path := ''/''\<rparr>) sampleSettings noCaps
       = Inr \<lparr>policy = Policy Cpu, encoder = ''libx264''\<rparr>"
    by (simp add: selectEncoder_def requested_def sampleTask_def sampleSettings_def noCaps_def
        canUseQsv_def canUseNvenc_def canUseVideoToolbox_def cpuEncoder_def)
  have d: "normalizePathSegment ''Demo'' = ''Demo''"
    by (simp add: normalizePathSegment_def trim_def stripLeadingSlashes_def isSpace_def)
  show ?thesis
    using routing_key_normalization
            [where v = "''Demo''" and a = "''Demo''" and n = "Suc (Suc 0)"
               and ws = "[CHR 0x20, CHR 0x09]" and b = "''Room''"
               and l = "[CHR 0x20]" and r = "[CHR 0x09, CHR 0x20]"
               and task = "sampleTask\<lparr>path := ''/''\<rparr>" and stg = sampleSettings
               and caps = noCaps] s e d
    by (simp add: isSpace_def)
qed

text \<open>
  Claim C6 as stated fails twice. The key \<open>Demo Room\<close> is not stored as \<open>demo-room\<close>:
  \<open>createTask\<close> stores \<open>Demo-Room\<close>. And a task whose key normalizes to the empty string
  and that asks for QSV without the capability fails with \<open>EncoderUnavailable\<close>, not with
  \<open>InvalidTask\<close>.
\<close>

theorem routing_key_counterexample:
  "normalizePathSegment ''Demo Room'' \<noteq> ''demo-room''
   \<and> map_sum id path (fst (createTask ''id-1'' ''2024-01-02T00:00:00.000Z'' demoPayload sampleStore))
       = Inr ''Demo-Room''
   \<and> safeSegment (path (sampleTask\<lparr>path := ''/'', hwAccel := Qsv\<rparr>)) = []
   \<and> buildFFmpegCommand (sampleTask\<lparr>path := ''/'', hwAccel := Qsv\<rparr>) sampleSettings noCaps
       = Inl (EncoderUnavailable ''Requested QSV encoder is unavailable: h264_qsv'')"
proof -
  have n: "normalizePathSegment ''Demo Room'' = ''Demo-Room''"
    by (simp add: normalizePathSegment_def trim_def stripLeadingSlashes_def isSpace_def)
  have f: "trim ''/video/demo.mp4'' = ''/video/demo.mp4''"
    by (simp add: trim_def isSpace_def)
  have c: "map_sum id path
             (fst (createTask ''id-1'' ''2024-01-02T00:00:00.000Z'' demoPayload sampleStore))
           = Inr ''Demo-Room''"
    by (simp add: createTask_def sampleStore_def init_def persist_def demoPayload_def n f Let_def)
  have s: "safeSegment (path (sampleTask\<lparr>path := ''/'', hwAccel := Qsv\<rparr>)) = []"
    by (simp add: safeSegment_def trim_def stripLeadingSlashes_def isSpace_def)
  have b: "buildFFmpegCommand (sampleTask\<lparr>path := ''/'', hwAccel := Qsv\<rparr>) sampleSettings noCaps
       = Inl (EncoderUnavailable ''Requested QSV encoder is unavailable: h264_qsv'')"
    by (simp add: buildFFmpegCommand_def selectEncoder_def requested_def sampleTask_def
        sampleSettings_def noCaps_def canUseQsv_def qsvEncoder_def codecPrefix_def)
  show ?thesis using n c s b by simp
qed

section \<open>The output endpoint: results\<close>












section \<open>Settings updates: results\<close>

lemma portInRange_iff:
  "portInRange n \<longleftrightarrow> isInteger n \<and> \<not> floorNumber n \<le> 0 \<and> \<not> floorNumber n > 65535"
proof (cases n)
  case (Num q)
  have "q = of_int \<lfloor>q\<rfloor> \<Longrightarrow> (1 \<le> q \<and> q \<le> 65535) = (1 \<le> \<lfloor>q\<rfloor> \<and> \<lfloor>q\<rfloor> \<le> 65535)"
    by (metis of_int_le_iff of_int_numeral of_int_1)
  with Num show ?thesis
    by (auto simp: portInRange_def isInteger_def floorNumber_def)
qed (simp_all add: portInRange_def isInteger_def)

lemma portInRange_exact:
  "portInRange n \<Longrightarrow> n = Num (of_int (floorNumber n)) \<and> 1 \<le> floorNumber n \<and> floorNumber n \<le> 65535"
  using portInRange_iff [of n]
  by (cases n) (auto simp: isInteger_def floorNumber_def)

text \<open>
  Claim C8. A settings update validates the merged settings before it stores them. When
  the merged host is empty, the merged port is not an integer from 1 to 65535, or the
  merged user name or password is empty, it fails and the store is as before. Otherwise
  it stores the merged settings, in memory and in the file, and they satisfy the
  invariants. The user name and the password are required whether or not authentication
  is enabled. Whenever the update fails, the store is unchanged.
\<close>

theorem updateSettings_validates:
  "(config st = Some cfg \<and> \<not> validMerge (settings cfg) partial \<longrightarrow>
      (\<exists>msg. updateSettings partial st = (Inl (InvalidSettings msg), st)))
   \<and> (config st = Some cfg \<and> validMerge (settings cfg) partial \<longrightarrow>
        updateSettings partial st =
          (Inr (mergeSettings (settings cfg) partial),
           \<lparr>config = Some (cfg\<lparr>settings := mergeSettings (settings cfg) partial\<rparr>),
            saved = Some (cfg\<lparr>settings := mergeSettings (settings cfg) partial\<rparr>)\<rparr>)
        \<and> mergedPort (settings cfg) partial
            = Num (of_int (listenPort (mergeSettings (settings cfg) partial)))
        \<and> listenHost (mergeSettings (settings cfg) partial) \<noteq> []
        \<and> 1 \<le> listenPort (mergeSettings (settings cfg) partial)
        \<and> listenPort (mergeSettings (settings cfg) partial) \<le> 65535
        \<and> authUsername (mergeSettings (settings cfg) partial) \<noteq> []
        \<and> authPassword (mergeSettings (settings cfg) partial) \<noteq> [])
   \<and> (\<forall>e. fst (updateSettings partial st) = Inl e \<longrightarrow> snd (updateSettings partial st) = st)"
proof -
  have bad: "config st = Some cfg \<and> \<not> validMerge (settings cfg) partial \<longrightarrow>
      (\<exists>msg. updateSettings partial st = (Inl (InvalidSettings msg), st))"
    by (auto simp: updateSettings_def Let_def validMerge_def mergedPort_def portInRange_iff)
  have good: "config st = Some cfg \<and> validMerge (settings cfg) partial \<longrightarrow>
        updateSettings partial st =
          (Inr (mergeSettings (settings cfg) partial),
           \<lparr>config = Some (cfg\<lparr>settings := mergeSettings (settings cfg) partial\<rparr>),
            saved = Some (cfg\<lparr>settings := mergeSettings (settings cfg) partial\<rparr>)\<rparr>)"
    by (auto simp: updateSettings_def Let_def validMerge_def mergedPort_def portInRange_iff
        mergeSettings_def persist_def)
  have inv: "validMerge (settings cfg) partial \<longrightarrow>
        mergedPort (settings cfg) partial
            = Num (of_int (listenPort (mergeSettings (settings cfg) partial)))
        \<and> listenHost (mergeSettings (settings cfg) partial) \<noteq> []
        \<and> 1 \<le> listenPort (mergeSettings (settings cfg) partial)
        \<and> listenPort (mergeSettings (settings cfg) partial) \<le> 65535
        \<and> authUsername (mergeSettings (settings cfg) partial) \<noteq> []
        \<and> authPassword (mergeSettings (settings cfg) partial) \<noteq> []"
    using portInRange_exact [of "mergedPort (settings cfg) partial"]
    by (simp add: validMerge_def mergeSettings_def)
  have unchanged:
    "\<forall>e. fst (updateSettings partial st) = Inl e \<longrightarrow> snd (updateSettings partial st) = st"
    by (auto simp: updateSettings_def Let_def split: option.splits if_splits)
  from bad good inv unchanged show ?thesis by blast
qed

lemma sampleStore_config:
  "config sampleStore = Some \<lparr>version = 1, settings = defaultSettings ''secret'', tasks = []\<rparr>"
  by (simp add: sampleStore_def init_def persist_def CONFIG_VERSION_def)

text \<open>
  The theorem at the store after a first start: ports 70000 and 8.5, an empty host and an
  empty password are refused; port 9000 is stored.
\<close>

theorem updateSettings_validates_witness:
  "updateSettings (noChange\<lparr>s_listenPort := Some (Num 70000)\<rparr>) sampleStore
     = (Inl (InvalidSettings ''listenPort must be between 1 and 65535''), sampleStore)
   \<and> updateSettings (noChange\<lparr>s_listenPort := Some (Num (17 / 2))\<rparr>) sampleStore
     = (Inl (InvalidSettings ''listenPort must be between 1 and 65535''), sampleStore)
   \<and> updateSettings (noChange\<lparr>s_listenHost := Some []\<rparr>) sampleStore
     = (Inl (InvalidSettings ''listenHost is required''), sampleStore)
   \<and> updateSettings (noChange\<lparr>s_authPassword := Some []\<rparr>) sampleStore
     = (Inl (InvalidSettings ''authPassword is required''), sampleStore)
   \<and> map_sum id listenPort (fst (updateSettings (noChange\<lparr>s_listenPort := Some (Num 9000)\<rparr>)
        sampleStore)) = Inr 9000
   \<and> map_option (\<lambda>c. listenPort (settings c))
        (saved (snd (updateSettings (noChange\<lparr>s_listenPort := Some (Num 9000)\<rparr>) sampleStore)))
       = Some 9000"
proof -
  let ?cfg = "\<lparr>version = 1, settings = defaultSettings ''secret'', tasks = []\<rparr>"
  have v2: "\<not> validMerge (settings ?cfg) (noChange\<lparr>s_listenPort := Some (Num (17 / 2))\<rparr>)"
    and v1: "\<not> validMerge (settings ?cfg) (noChange\<lparr>s_listenPort := Some (Num 70000)\<rparr>)"
    and v3: "\<not> validMerge (settings ?cfg) (noChange\<lparr>s_listenHost := Some []\<rparr>)"
    and v4: "\<not> validMerge (settings ?cfg) (noChange\<lparr>s_authPassword := Some []\<rparr>)"
    and v5: "validMerge (settings ?cfg) (noChange\<lparr>s_listenPort := Some (Num 9000)\<rparr>)"
proof -
    have f: "\<lfloor>(17::rat) / 2\<rfloor> = 8" by linarith
    show "\<not> validMerge (settings ?cfg) (noChange\<lparr>s_listenPort := Some (Num (17 / 2))\<rparr>)"
      by (simp add: validMerge_def noChange_def defaultSettings_def override_def
          mergedPort_def portInRange_def f)
  qed (simp_all add: validMerge_def noChange_def defaultSettings_def override_def
        mergedPort_def portInRange_def)
  have m: "listenPort (mergeSettings (defaultSettings ''secret'')
               (noChange\<lparr>s_listenPort := Some (Num 9000)\<rparr>)) = 9000"
    by (simp add: mergeSettings_def mergedPort_def noChange_def override_def floorNumber_def)
  note t = updateSettings_validates [of sampleStore ?cfg]
  have e1: "updateSettings (noChange\<lparr>s_listenPort := Some (Num 70000)\<rparr>) sampleStore
     = (Inl (InvalidSettings ''listenPort must be between 1 and 65535''), sampleStore)"
    using t [of "noChange\<lparr>s_listenPort := Some (Num 70000)\<rparr>"] v1 sampleStore_config
    by (auto simp: updateSettings_def Let_def noChange_def override_def defaultSettings_def
        isInteger_def floorNumber_def)
  have e2: "updateSettings (noChange\<lparr>s_listenPort := Some (Num (17 / 2))\<rparr>) sampleStore
     = (Inl (InvalidSettings ''listenPort must be between 1 and 65535''), sampleStore)"
    using t [of "noChange\<lparr>s_listenPort := Some (Num (17 / 2))\<rparr>"] v2 sampleStore_config
    by (auto simp: updateSettings_def Let_def noChange_def override_def defaultSettings_def
        isInteger_def floorNumber_def)
  have e3: "updateSettings (noChange\<lparr>s_listenHost := Some []\<rparr>) sampleStore
     = (Inl (InvalidSettings ''listenHost is required''), sampleStore)"
    using t [of "noChange\<lparr>s_listenHost := Some []\<rparr>"] v3 sampleStore_config
    by (auto simp: updateSettings_def Let_def noChange_def override_def defaultSettings_def)
  have e4: "updateSettings (noChange\<lparr>s_authPassword := Some []\<rparr>) sampleStore
     = (Inl (InvalidSettings ''authPassword is required''), sampleStore)"
    using t [of "noChange\<lparr>s_authPassword := Some []\<rparr>"] v4 sampleStore_config
    by (auto simp: updateSettings_def Let_def noChange_def override_def defaultSettings_def
        isInteger_def floorNumber_def)
  have e5: "updateSettings (noChange\<lparr>s_listenPort := Some (Num 9000)\<rparr>) sampleStore
     = (Inr (mergeSettings (settings ?cfg) (noChange\<lparr>s_listenPort := Some (Num 9000)\<rparr>)),
        \<lparr>config = Some (?cfg\<lparr>settings :=
             mergeSettings (settings ?cfg) (noChange\<lparr>s_listenPort := Some (Num 9000)\<rparr>)\<rparr>),
         saved = Some (?cfg\<lparr>settings :=
             mergeSettings (settings ?cfg) (noChange\<lparr>s_listenPort := Some (Num 9000)\<rparr>)\<rparr>)\<rparr>)"
    using t [of "noChange\<lparr>s_listenPort := Some (Num 9000)\<rparr>"] v5 sampleStore_config
    by blast
  show ?thesis
    using e1 e2 e3 e4 by (simp add: e5 m)
qed

section \<open>Uniqueness of routing keys: results\<close>

lemma task_id_applyPayload: "task_id (applyPayload now p payload task) = task_id task"
  by (simp add: applyPayload_def)

lemma path_applyPayload: "path (applyPayload now p payload task) = p"
  by (simp add: applyPayload_def)

text \<open>
  Claim C5, amended. When the normalized routing key of a create or an update is the
  path of another stored task, the operation fails and the store is unchanged. The
  failure is \<open>PathTaken\<close> for an update, and for a create whose input file is not blank:
  a create checks the input file before the collision. An update whose payload path
  normalizes to the task's own path succeeds when no other task has that path and the
  payload carries no blank input file.
\<close>

theorem routing_key_uniqueness:
  "(config st = Some cfg \<and> normalizePathSegment (path payload) \<noteq> []
      \<and> list_ex (\<lambda>item. path item = normalizePathSegment (path payload)) (tasks cfg)
    \<longrightarrow> (\<exists>e. createTask uuid now payload st = (Inl e, st))
        \<and> (trim (inputFile payload) \<noteq> [] \<longrightarrow>
              createTask uuid now payload st
                = (Inl (pathTaken (normalizePathSegment (path payload))), st)))
   \<and> (config st = Some cfg \<and> find (\<lambda>item. task_id item = ident) (tasks cfg) = Some task
      \<and> nextPath = (case u_path upd of None \<Rightarrow> path task | Some p \<Rightarrow> normalizePathSegment p)
      \<and> nextPath \<noteq> []
      \<and> list_ex (\<lambda>item. task_id item \<noteq> ident \<and> path item = nextPath) (tasks cfg)
    \<longrightarrow> updateTask now ident upd st = (Inl (pathTaken nextPath), st))
   \<and> (config st = Some cfg \<and> find (\<lambda>item. task_id item = ident) (tasks cfg) = Some task
      \<and> u_path upd = Some p \<and> normalizePathSegment p = path task \<and> path task \<noteq> []
      \<and> \<not> list_ex (\<lambda>item. task_id item \<noteq> ident \<and> path item = path task) (tasks cfg)
      \<and> (u_inputFile upd = None \<or> trim (the (u_inputFile upd)) \<noteq> [])
    \<longrightarrow> (\<exists>task' st'. updateTask now ident upd st = (Inr task', st')
          \<and> task_id task' = ident \<and> path task' = path task
          \<and> config st' = Some (cfg\<lparr>tasks :=
                updateFirst (\<lambda>item. task_id item = ident) (\<lambda>_. task') (tasks cfg)\<rparr>)))"
proof -
  have create: "config st = Some cfg \<and> normalizePathSegment (path payload) \<noteq> []
      \<and> list_ex (\<lambda>item. path item = normalizePathSegment (path payload)) (tasks cfg)
    \<longrightarrow> (\<exists>e. createTask uuid now payload st = (Inl e, st))
        \<and> (trim (inputFile payload) \<noteq> [] \<longrightarrow>
              createTask uuid now payload st
                = (Inl (pathTaken (normalizePathSegment (path payload))), st))"
    by (simp add: createTask_def Let_def)
  have update: "config st = Some cfg \<and> find (\<lambda>item. task_id item = ident) (tasks cfg) = Some task
      \<and> nextPath = (case u_path upd of None \<Rightarrow> path task | Some p \<Rightarrow> normalizePathSegment p)
      \<and> nextPath \<noteq> []
      \<and> list_ex (\<lambda>item. task_id item \<noteq> ident \<and> path item = nextPath) (tasks cfg)
    \<longrightarrow> updateTask now ident upd st = (Inl (pathTaken nextPath), st)"
    by (auto simp: updateTask_def Let_def)
  have own: "config st = Some cfg \<and> find (\<lambda>item. task_id item = ident) (tasks cfg) = Some task
      \<and> u_path upd = Some p \<and> normalizePathSegment p = path task \<and> path task \<noteq> []
      \<and> \<not> list_ex (\<lambda>item. task_id item \<noteq> ident \<and> path item = path task) (tasks cfg)
      \<and> (u_inputFile upd = None \<or> trim (the (u_inputFile upd)) \<noteq> [])
    \<longrightarrow> (\<exists>task' st'. updateTask now ident upd st = (Inr task', st')
          \<and> task_id task' = ident \<and> path task' = path task
          \<and> config st' = Some (cfg\<lparr>tasks :=
                updateFirst (\<lambda>item. task_id item = ident) (\<lambda>_. task') (tasks cfg)\<rparr>))"
  proof (intro impI, elim conjE)
    assume a: "config st = Some cfg"
      "find (\<lambda>item. task_id item = ident) (tasks cfg) = Some task"
      "u_path upd = Some p" "normalizePathSegment p = path task" "path task \<noteq> []"
      "\<not> list_ex (\<lambda>item. task_id item \<noteq> ident \<and> path item = path task) (tasks cfg)"
      "u_inputFile upd = None \<or> trim (the (u_inputFile upd)) \<noteq> []"
    from a(2) have i: "task_id task = ident" by (auto simp: find_Some_iff)
    from a(7) have f: "\<not> (case u_inputFile upd of None \<Rightarrow> False | Some f \<Rightarrow> trim f = [])"
      by (auto split: option.splits)
    let ?t = "applyPayload now (path task) upd task"
    have "updateTask now ident upd st =
        (Inr ?t, persist (st\<lparr>config := Some (cfg\<lparr>tasks :=
            updateFirst (\<lambda>item. task_id item = ident) (\<lambda>_. ?t) (tasks cfg)\<rparr>)\<rparr>))"
      using a(1-6) f by (simp add: updateTask_def Let_def)
    then show "\<exists>task' st'. updateTask now ident upd st = (Inr task', st')
          \<and> task_id task' = ident \<and> path task' = path task
          \<and> config st' = Some (cfg\<lparr>tasks :=
                updateFirst (\<lambda>item. task_id item = ident) (\<lambda>_. task') (tasks cfg)\<rparr>)"
      using i by (simp add: task_id_applyPayload path_applyPayload persist_def)
  qed
  from create update own show ?thesis by blast
qed

lemma demoStore_config:
  "config demoStore
     = Some \<lparr>version = 1, settings = defaultSettings ''secret'', tasks = [demoTask]\<rparr>"
  by (simp add: demoStore_def)

lemma demoTask_fields: "path demoTask = ''Demo-Room''" "task_id demoTask = ''id-1''"
  by (simp_all add: demoTask_def)

text \<open>
  The theorem at a store that holds the task with path \<open>Demo-Room\<close>: a second create with
  the key \<open>Demo Room\<close> fails with \<open>PathTaken\<close>, an update of the task itself to that key
  succeeds.
\<close>

theorem routing_key_uniqueness_witness:
  "createTask ''id-2'' ''2024-01-03T00:00:00.000Z'' demoPayload demoStore
     = (Inl (pathTaken ''Demo-Room''), demoStore)
   \<and> map_sum id path (fst (updateTask ''2024-01-03T00:00:00.000Z'' ''id-1''
        (noPayload\<lparr>u_path := Some ''Demo Room''\<rparr>) demoStore)) = Inr ''Demo-Room''"
proof -
  let ?cfg = "\<lparr>version = 1, settings = defaultSettings ''secret'', tasks = [demoTask]\<rparr>"
  note t = routing_key_uniqueness [where st = demoStore and cfg = ?cfg
      and payload = demoPayload and uuid = "''id-2''" and now = "''2024-01-03T00:00:00.000Z''"
      and ident = "''id-1''" and task = demoTask and nextPath = "''Demo-Room''"
      and upd = "noPayload\<lparr>u_path := Some ''Demo Room''\<rparr>" and p = "''Demo Room''"]
  have p: "path demoPayload = ''Demo Room''" "trim (inputFile demoPayload) \<noteq> []"
    by (simp_all add: demoPayload_def trim_def isSpace_def)
  have f: "find (\<lambda>item. task_id item = ''id-1'') (tasks ?cfg) = Some demoTask"
    by (simp add: demoTask_fields)
  have u: "u_path (noPayload\<lparr>u_path := Some ''Demo Room''\<rparr>) = Some ''Demo Room''"
    "u_inputFile (noPayload\<lparr>u_path := Some ''Demo Room''\<rparr>) = None"
    by (simp_all add: noPayload_def)
  have c: "createTask ''id-2'' ''2024-01-03T00:00:00.000Z'' demoPayload demoStore
     = (Inl (pathTaken ''Demo-Room''), demoStore)"
    using t by (auto simp: demoStore_config p demo_room_normalized demoTask_fields)
  have "\<exists>task' st'. updateTask ''2024-01-03T00:00:00.000Z'' ''id-1''
        (noPayload\<lparr>u_path := Some ''Demo Room''\<rparr>) demoStore = (Inr task', st')
        \<and> path task' = path demoTask"
    using t by (auto simp: demoStore_config f u p demo_room_normalized demoTask_fields)
  then have "map_sum id path (fst (updateTask ''2024-01-03T00:00:00.000Z'' ''id-1''
        (noPayload\<lparr>u_path := Some ''Demo Room''\<rparr>) demoStore)) = Inr ''Demo-Room''"
    by (auto simp: demoTask_fields)
  with c show ?thesis by simp
qed

text \<open>
  Claim C5 as stated fails when the payload's input file is blank: the create with a
  colliding key fails with the input-file error instead of \<open>PathTaken\<close>, and the update
  of a task to its own path fails.
\<close>

theorem routing_key_uniqueness_counterexample:
  "normalizePathSegment (path (demoPayload\<lparr>inputFile := '' ''\<rparr>)) = path demoTask
   \<and> createTask ''id-2'' ''2024-01-03T00:00:00.000Z'' (demoPayload\<lparr>inputFile := '' ''\<rparr>) demoStore
       = (Inl (InvalidInput ''Input file is required''), demoStore)
   \<and> updateTask ''2024-01-03T00:00:00.000Z'' ''id-1''
        (noPayload\<lparr>u_path := Some ''Demo Room'', u_inputFile := Some '' ''\<rparr>) demoStore
       = (Inl (InvalidInput ''Input file is required''), demoStore)"
proof -
  have b: "trim '' '' = []" by (simp add: trim_def isSpace_def)
  have 1: "normalizePathSegment (path (demoPayload\<lparr>inputFile := '' ''\<rparr>)) = path demoTask"
    by (simp add: demoPayload_def demo_room_normalized demoTask_fields)
  have 2: "createTask ''id-2'' ''2024-01-03T00:00:00.000Z'' (demoPayload\<lparr>inputFile := '' ''\<rparr>)
       demoStore = (Inl (InvalidInput ''Input file is required''), demoStore)"
    using 1 by (simp add: createTask_def demoStore_config Let_def b demoTask_fields)
  have 3: "updateTask ''2024-01-03T00:00:00.000Z'' ''id-1''
        (noPayload\<lparr>u_path := Some ''Demo Room'', u_inputFile := Some '' ''\<rparr>) demoStore
       = (Inl (InvalidInput ''Input file is required''), demoStore)"
    by (simp add: updateTask_def demoStore_config Let_def b demoTask_fields noPayload_def demo_room_normalized)
  from 1 2 3 show ?thesis by simp
qed

section \<open>Loading the store: results\<close>

lemma set_map_filter_iff:
  "t \<in> set (List.map_filter f xs) \<longleftrightarrow> (\<exists>x \<in> set xs. f x = Some t)"
  by (induction xs) (auto split: option.splits)

lemma status_resetStatus: "status (resetStatus t) \<noteq> Running \<and> status (resetStatus t) \<noteq> Starting"
  by (simp add: resetStatus_def)

lemma toStreamStatus_statusName: "toStreamStatus (Some (statusName s)) = s"
  by (cases s) (simp_all add: toStreamStatus_def statusName_def)

lemma normalizeTask_fields:
  assumes "normalizeTask now r = Some t"
  shows "task_id t = the (r_id r)" and "status t = toStreamStatus (r_status r)"
    and "path t = normalizePathSegment (the (r_path r))"
  using assms by (auto simp: normalizeTask_def Let_def split: if_splits)

lemma normalizeTask_serializeTask:
  assumes "storedOk t"
  shows "\<exists>t'. normalizeTask now (serializeTask t) = Some t' \<and> summary t' = summary t"
  using assms
  by (simp add: normalizeTask_def serializeTask_def storedOk_def falsy_def Let_def summary_def
      toStreamStatus_statusName)

lemma summary_resetStatus:
  "summary (resetStatus t)
     = (task_id t, path t,
        if status t = Running \<or> status t = Starting then Stopped else status t)"
  by (simp add: summary_def resetStatus_def)

lemma reload_summaries:
  assumes "list_all storedOk ts"
  shows "map summary (map resetStatus (List.map_filter (normalizeTask now) (map serializeTask ts)))
           = map (\<lambda>t. (task_id t, path t,
                    if status t = Running \<or> status t = Starting then Stopped else status t)) ts"
  using assms
proof (induction ts)
  case Nil
  show ?case by simp
next
  case (Cons t ts)
  then have "storedOk t" by simp
  then obtain t' where t': "normalizeTask now (serializeTask t) = Some t'"
    and s: "summary t' = summary t"
    using normalizeTask_serializeTask by blast
  from s have "summary (resetStatus t')
      = (task_id t, path t, if status t = Running \<or> status t = Starting then Stopped else status t)"
    by (simp add: summary_resetStatus) (simp add: summary_def)
  with Cons t' show ?case by simp
qed

text \<open>
  A task that \<open>createTask\<close> stores satisfies \<open>storedOk\<close>, and so does a task that
  \<open>updateTask\<close> stores in a store whose tasks satisfy it.
\<close>

lemma normalizePathSegment_idem:
  "normalizePathSegment (normalizePathSegment v) = normalizePathSegment v"
proof (cases "normalizePathSegment v = []")
  case True
  then show ?thesis
    by (simp add: normalizePathSegment_def trim_def stripLeadingSlashes_def)
next
  case False
  let ?r = "normalizePathSegment v"
  have ns: "list_all (\<lambda>c. \<not> isSpace c) ?r"
    by (simp add: normalizePathSegment_def collapseWhitespace_no_space)
  with False have "\<not> isSpace (hd ?r)" and "\<not> isSpace (last ?r)"
    by (simp_all add: list_all_iff)
  with False have t: "trim ?r = ?r" by (rule trim_fixed)
  have s: "stripLeadingSlashes ?r = ?r"
    using normalizePathSegment_no_leading_slash [OF False]
    by (simp add: stripLeadingSlashes_def dropWhile_eq_self_iff)
  have "normalizePathSegment ?r = collapseWhitespace ?r"
    using t s by (simp add: normalizePathSegment_def [of ?r])
  with ns show ?thesis by (simp add: collapseWhitespace_fixed)
qed


lemma createTask_storedOk:
  assumes "createTask uuid now payload st = (Inr t, st')" and "uuid \<noteq> []"
  shows "storedOk t"
proof -
  from assms(1) obtain cfg where c: "config st = Some cfg"
    by (cases "config st") (simp_all add: createTask_def)
  let ?seg = "normalizePathSegment (path payload)"
  from assms(1) c have seg: "?seg \<noteq> []"
    by (auto simp: createTask_def Let_def split: if_splits)
  from assms(1) c seg have inp: "trim (inputFile payload) \<noteq> []"
    by (auto simp: createTask_def Let_def split: if_splits)
  from assms(1) c seg inp
  have "task_id t = uuid \<and> path t = ?seg \<and> inputFile t = trim (inputFile payload)
      \<and> name t = (if trim (name payload) = [] then ?seg else trim (name payload))"
    by (auto simp: createTask_def Let_def split: if_splits)
  with seg inp assms(2) show ?thesis
    by (simp add: storedOk_def normalizePathSegment_idem)
qed

lemma updateTask_storedOk:
  assumes "updateTask now ident upd st = (Inr t, st')" and "config st = Some cfg"
    and "list_all storedOk (tasks cfg)"
  shows "storedOk t"
proof -
  from assms(1,2) obtain old where f: "find (\<lambda>item. task_id item = ident) (tasks cfg) = Some old"
    by (cases "find (\<lambda>item. task_id item = ident) (tasks cfg)") (simp_all add: updateTask_def)
  then have "old \<in> set (tasks cfg)"
    by (auto simp: find_Some_iff)
  with assms(3) have ok: "storedOk old" by (simp add: list_all_iff)
  let ?next = "case u_path upd of None \<Rightarrow> path old | Some p \<Rightarrow> normalizePathSegment p"
  from assms(1,2) f have n: "?next \<noteq> []"
    by (auto simp: updateTask_def Let_def split: if_splits)
  from assms(1,2) f n
  have i: "\<not> (case u_inputFile upd of None \<Rightarrow> False | Some f \<Rightarrow> trim f = [])"
    by (auto simp: updateTask_def Let_def split: if_splits)
  from assms(1,2) f n i have t: "t = applyPayload now ?next upd old"
    by (auto simp: updateTask_def Let_def split: if_splits)
  have p: "normalizePathSegment ?next = ?next"
    using ok by (cases "u_path upd") (simp_all add: storedOk_def normalizePathSegment_idem)
  have "task_id t = task_id old" "path t = ?next"
    by (simp_all add: t applyPayload_def)
  moreover have "name t \<noteq> []"
    using ok n by (cases "u_name upd") (simp_all add: t applyPayload_def storedOk_def)
  moreover have "inputFile t \<noteq> []"
    using ok i by (cases "u_inputFile upd") (simp_all add: t applyPayload_def storedOk_def)
  ultimately show ?thesis
    using ok n p by (simp add: storedOk_def)
qed

text \<open>
  Claim C4. Loading the store: an entry of the file that is a task (\<open>normalizeTask\<close>
  accepts it) and whose status is \<open>running\<close> or \<open>starting\<close> is loaded as that task with status
  \<open>stopped\<close>; an entry whose status is \<open>created\<close>, \<open>stopped\<close> or \<open>error\<close> is loaded with that
  status. No loaded task is \<open>running\<close> or \<open>starting\<close>. For a file the store wrote itself,
  every task is loaded with its identifier and path, and with its status unless that was
  \<open>running\<close> or \<open>starting\<close>. After the load the supervisor is constructed on the store and
  holds no process handle.
\<close>

theorem load_resets_live_statuses:
  "(rc_tasks raw = Some rs \<and> r \<in> set rs \<and> normalizeTask now r = Some t \<longrightarrow>
      task_id t = the (r_id r)
      \<and> (r_status r = Some ''running'' \<or> r_status r = Some ''starting'' \<longrightarrow>
           t\<lparr>status := Stopped\<rparr> \<in> set (tasks (normalizeConfig pw now raw)))
      \<and> (r_status r = Some ''created'' \<longrightarrow>
           status t = Created \<and> t \<in> set (tasks (normalizeConfig pw now raw)))
      \<and> (r_status r = Some ''stopped'' \<longrightarrow>
           status t = Stopped \<and> t \<in> set (tasks (normalizeConfig pw now raw)))
      \<and> (r_status r = Some ''error'' \<longrightarrow>
           status t = Error \<and> t \<in> set (tasks (normalizeConfig pw now raw))))
   \<and> list_all (\<lambda>t. status t \<noteq> Running \<and> status t \<noteq> Starting)
        (tasks (normalizeConfig pw now raw))
   \<and> (list_all storedOk (tasks cfg) \<longrightarrow>
        map summary (tasks (normalizeConfig pw now (serializeConfig cfg)))
          = map (\<lambda>t. (task_id t, path t,
                   if status t = Running \<or> status t = Starting then Stopped else status t))
              (tasks cfg))
   \<and> config (init pw now (Some raw)) = Some (normalizeConfig pw now raw)
   \<and> store (createServices pw now (Some raw)) = init pw now (Some raw)
   \<and> jobs (createServices pw now (Some raw)) ident = None"
proof -
  have entry: "rc_tasks raw = Some rs \<and> r \<in> set rs \<and> normalizeTask now r = Some t \<longrightarrow>
      task_id t = the (r_id r)
      \<and> (r_status r = Some ''running'' \<or> r_status r = Some ''starting'' \<longrightarrow>
           t\<lparr>status := Stopped\<rparr> \<in> set (tasks (normalizeConfig pw now raw)))
      \<and> (r_status r = Some ''created'' \<longrightarrow>
           status t = Created \<and> t \<in> set (tasks (normalizeConfig pw now raw)))
      \<and> (r_status r = Some ''stopped'' \<longrightarrow>
           status t = Stopped \<and> t \<in> set (tasks (normalizeConfig pw now raw)))
      \<and> (r_status r = Some ''error'' \<longrightarrow>
           status t = Error \<and> t \<in> set (tasks (normalizeConfig pw now raw)))"
  proof (intro impI, elim conjE)
    assume a: "rc_tasks raw = Some rs" "r \<in> set rs" "normalizeTask now r = Some t"
    from a(2,3) have m: "t \<in> set (List.map_filter (normalizeTask now) rs)"
      by (auto simp: set_map_filter_iff)
    then have l: "resetStatus t \<in> set (tasks (normalizeConfig pw now raw))"
      using a(1) by (simp add: normalizeConfig_def)
    note f = normalizeTask_fields [OF a(3)]
    show "task_id t = the (r_id r)
      \<and> (r_status r = Some ''running'' \<or> r_status r = Some ''starting'' \<longrightarrow>
           t\<lparr>status := Stopped\<rparr> \<in> set (tasks (normalizeConfig pw now raw)))
      \<and> (r_status r = Some ''created'' \<longrightarrow>
           status t = Created \<and> t \<in> set (tasks (normalizeConfig pw now raw)))
      \<and> (r_status r = Some ''stopped'' \<longrightarrow>
           status t = Stopped \<and> t \<in> set (tasks (normalizeConfig pw now raw)))
      \<and> (r_status r = Some ''error'' \<longrightarrow>
           status t = Error \<and> t \<in> set (tasks (normalizeConfig pw now raw)))"
      using l f(1,2) by (auto simp: resetStatus_def toStreamStatus_def)
  qed
  have none: "list_all (\<lambda>t. status t \<noteq> Running \<and> status t \<noteq> Starting)
        (tasks (normalizeConfig pw now raw))"
    by (cases "rc_tasks raw")
      (simp_all add: normalizeConfig_def list_all_iff status_resetStatus)
  have reload: "list_all storedOk (tasks cfg) \<longrightarrow>
        map summary (tasks (normalizeConfig pw now (serializeConfig cfg)))
          = map (\<lambda>t. (task_id t, path t,
                   if status t = Running \<or> status t = Starting then Stopped else status t))
              (tasks cfg)"
    using reload_summaries [of "tasks cfg" now]
    by (simp add: normalizeConfig_def serializeConfig_def)
  have start: "config (init pw now (Some raw)) = Some (normalizeConfig pw now raw)"
    "store (createServices pw now (Some raw)) = init pw now (Some raw)"
    "jobs (createServices pw now (Some raw)) ident = None"
    by (simp_all add: init_def persist_def createServices_def newStreamJobManager_def)
  from entry none reload start show ?thesis by blast
qed


lemma runningRaw_normalized:
  "normalizeTask now runningRaw = Some (demoTask\<lparr>status := Running\<rparr>)"
proof -
  have "normalizePathSegment ''Demo-Room'' = ''Demo-Room''"
    by (simp add: normalizePathSegment_def trim_def stripLeadingSlashes_def isSpace_def)
  then show ?thesis
    by (simp add: runningRaw_def serializeTask_def demoTask_def normalizeTask_def falsy_def
        orElse_def Let_def transportName_def hwAccelName_def videoCodecName_def
        audioCodecName_def statusName_def toStreamStatus_def toFiniteInt_def isFinite_def
        isPositive_def floorNumber_def)
qed

lemma sample_storedOk:
  "storedOk (demoTask\<lparr>status := Running\<rparr>)"
  "storedOk (demoTask\<lparr>task_id := ''id-2'', path := ''second'', status := Error\<rparr>)"
  by (simp_all add: storedOk_def demoTask_def normalizePathSegment_def trim_def
      stripLeadingSlashes_def isSpace_def)

text \<open>The theorem at a file with a running task and a failed one.\<close>

theorem load_resets_live_statuses_witness:
  "demoTask\<lparr>status := Stopped\<rparr> \<in> set (tasks (normalizeConfig ''pw'' ''t'' sampleFile))
   \<and> map summary (tasks (normalizeConfig ''pw'' ''t''
        (serializeConfig \<lparr>version = 1, settings = defaultSettings ''pw'',
           tasks = [demoTask\<lparr>status := Running\<rparr>,
                    demoTask\<lparr>task_id := ''id-2'', path := ''second'', status := Error\<rparr>]\<rparr>)))
      = [(''id-1'', ''Demo-Room'', Stopped), (''id-2'', ''second'', Error)]
   \<and> jobs (createServices ''pw'' ''t'' (Some sampleFile)) ''id-1'' = None"
proof -
  let ?cfg = "\<lparr>version = 1, settings = defaultSettings ''pw'',
           tasks = [demoTask\<lparr>status := Running\<rparr>,
                    demoTask\<lparr>task_id := ''id-2'', path := ''second'', status := Error\<rparr>]\<rparr>"
  note t = load_resets_live_statuses [where raw = sampleFile and rs = "[runningRaw, errorRaw]"
      and r = runningRaw and t = "demoTask\<lparr>status := Running\<rparr>" and now = "''t''"
      and pw = "''pw''" and cfg = ?cfg and ident = "''id-1''"]
  have r: "rc_tasks sampleFile = Some [runningRaw, errorRaw]"
    "r_status runningRaw = Some ''running''"
    by (simp_all add: sampleFile_def runningRaw_def serializeTask_def statusName_def)
  have 1: "demoTask\<lparr>status := Stopped\<rparr> \<in> set (tasks (normalizeConfig ''pw'' ''t'' sampleFile))"
    using t r runningRaw_normalized [of "''t''"] by simp
  have 2: "map summary (tasks (normalizeConfig ''pw'' ''t'' (serializeConfig ?cfg)))
      = [(''id-1'', ''Demo-Room'', Stopped), (''id-2'', ''second'', Error)]"
    using t sample_storedOk by (simp add: demoTask_def)
  have 3: "jobs (createServices ''pw'' ''t'' (Some sampleFile)) ''id-1'' = None"
    using t by blast
  from 1 2 3 show ?thesis by blast
qed

section \<open>The capability cache: results\<close>







section \<open>Stopping a process: results\<close>

lemmas session_defs = step_def timerCallback_def stopCloseListener_def closeHandler_def
  resolve_def kill_def closeStatus_def

lemma sessionInv_stopBegin:
  assumes "live s0"
  shows "sessionInv (clock s0 + 3000) (stopBegin s0)"
  using assms by (simp add: live_def stopBegin_def sessionInv_def kill_def)

lemma sessionInv_step:
  assumes "sessionInv T s"
  shows "sessionInv T (step k e s)"
proof (cases e)
  case (Tick d)
  with assms show ?thesis
    by (auto simp: sessionInv_def session_defs Let_def split: option.splits)
next
  case (Exit c)
  with assms show ?thesis
    by (auto simp: sessionInv_def session_defs split: option.splits)
next
  case Close
  with assms show ?thesis
    by (auto simp: sessionInv_def session_defs split: option.splits)
qed

lemma sessionInv_run: "sessionInv T s \<Longrightarrow> sessionInv T (run k evs s)"
  by (induction evs arbitrary: s) (simp_all add: sessionInv_step)

lemma ended_step: "ended s \<Longrightarrow> ended (step k e s) \<and> signalsSent (step k e s) = signalsSent s"
  by (cases e) (auto simp: session_defs Let_def split: option.splits)

lemma ended_run: "ended s \<Longrightarrow> signalsSent (run k evs s) = signalsSent s"
proof (induction evs arbitrary: s)
  case Nil
  show ?case by simp
next
  case (Cons e evs)
  from ended_step [OF Cons.prems, of k e] Cons.IH [of "step k e s"] show ?case by simp
qed

text \<open>
  Claim C3, amended. A stop request on a live process, for the task supervisor and for
  the server supervisor alike, followed by any events:
  \<^item> the first signal sent is \<open>SIGTERM\<close>, and the only other signal ever sent is one
    \<open>SIGKILL\<close> after it;
  \<^item> the call has returned exactly when 3000 ms have passed since the request or the
    \<open>close\<close> event of the process was emitted: it returns at the first of the two;
  \<^item> when the timer fires while the call waits and the process has not terminated,
    \<open>SIGKILL\<close> is sent and the call returns;
  \<^item> when the process has terminated while the call waits, \<open>SIGKILL\<close> is never sent,
    whatever follows, and at the \<open>close\<close> event the call returns the final record: status
    \<open>stopped\<close>, no handle registered.
\<close>

theorem stop_escalates_after_timeout:
  assumes "live s0" and "s = run k evs (stopBegin s0)"
  shows "signalsSent (stopBegin s0) = [SIGTERM]
     \<and> (signalsSent s = [SIGTERM] \<or> signalsSent s = [SIGTERM, SIGKILL])
     \<and> (returned s \<noteq> None \<longleftrightarrow> clock s0 + 3000 \<le> clock s \<or> closeEmitted s)
     \<and> (returned s = None \<and> \<not> ended s \<and> clock s0 + 3000 \<le> clock s + d \<longrightarrow>
          signalsSent (step k (Tick d) s) = [SIGTERM, SIGKILL]
          \<and> returned (step k (Tick d) s) \<noteq> None)
     \<and> (returned s = None \<and> ended s \<longrightarrow>
          (\<forall>post. signalsSent (run k post s) = [SIGTERM])
          \<and> returned (step k Close s) = Some Stopped
          \<and> storedStatus (step k Close s) = Stopped
          \<and> \<not> registered (step k Close s))"
proof -
  let ?T = "clock s0 + 3000"
  have inv: "sessionInv ?T s"
    using assms sessionInv_stopBegin sessionInv_run by simp
  have first: "signalsSent (stopBegin s0) = [SIGTERM]"
    using assms(1) by (simp add: live_def stopBegin_def kill_def)
  have sigs: "signalsSent s = [SIGTERM] \<or> signalsSent s = [SIGTERM, SIGKILL]"
    using inv by (auto simp: sessionInv_def split: option.splits)
  have ret: "returned s \<noteq> None \<longleftrightarrow> ?T \<le> clock s \<or> closeEmitted s"
    using inv by (auto simp: sessionInv_def split: option.splits)
  have fire: "returned s = None \<and> \<not> ended s \<and> ?T \<le> clock s + d \<longrightarrow>
          signalsSent (step k (Tick d) s) = [SIGTERM, SIGKILL]
          \<and> returned (step k (Tick d) s) \<noteq> None"
    using inv by (auto simp: sessionInv_def session_defs Let_def split: option.splits)
  have exited: "returned s = None \<and> ended s \<longrightarrow>
          (\<forall>post. signalsSent (run k post s) = [SIGTERM])
          \<and> returned (step k Close s) = Some Stopped
          \<and> storedStatus (step k Close s) = Stopped
          \<and> \<not> registered (step k Close s)"
  proof (intro impI, elim conjE)
    assume w: "returned s = None" and e: "ended s"
    from inv w have p: "signalsSent s = [SIGTERM]" "closeListener s" "\<not> closeEmitted s"
      "stopRequested s" "timerDue s \<noteq> None"
      by (auto simp: sessionInv_def split: option.splits)
    have "\<forall>post. signalsSent (run k post s) = [SIGTERM]"
      using ended_run [OF e] p(1) by simp
    moreover have "returned (step k Close s) = Some Stopped
          \<and> storedStatus (step k Close s) = Stopped \<and> \<not> registered (step k Close s)"
      using e w p by (cases k) (auto simp: session_defs)
    ultimately show "(\<forall>post. signalsSent (run k post s) = [SIGTERM])
          \<and> returned (step k Close s) = Some Stopped
          \<and> storedStatus (step k Close s) = Stopped
          \<and> \<not> registered (step k Close s)"
      by blast
  qed
  from first sigs ret fire exited show ?thesis by blast
qed

text \<open>
  The theorem at three runs: the process ignores \<open>SIGTERM\<close> for three seconds; it exits
  with a code after one second and closes; a signal ends it after one second and its
  \<open>close\<close> event comes late.
\<close>

theorem stop_escalates_after_timeout_witness:
  "live liveSession
   \<and> signalsSent (run TaskSupervisor [Tick 1000, Tick 2000] (stopBegin liveSession))
       = [SIGTERM, SIGKILL]
   \<and> returned (run TaskSupervisor [Tick 1000, Exit (Some 255), Close] (stopBegin liveSession))
       = Some Stopped
   \<and> signalsSent (run TaskSupervisor [Tick 1000, Exit None, Tick 5000, Close]
        (stopBegin liveSession)) = [SIGTERM]"
proof -
  let ?b = "stopBegin liveSession"
  let ?s1 = "run TaskSupervisor [Tick 1000] ?b"
  let ?s2 = "run TaskSupervisor [Tick 1000, Exit (Some 255)] ?b"
  let ?s3 = "run TaskSupervisor [Tick 1000, Exit None] ?b"
  have l: "live liveSession" by (simp add: live_def liveSession_def)
  have h1: "returned ?s1 = None \<and> \<not> ended ?s1 \<and> clock liveSession + 3000 \<le> clock ?s1 + 2000"
    by (simp add: liveSession_def stopBegin_def session_defs)
  have h2: "returned ?s2 = None \<and> ended ?s2"
    by (simp add: liveSession_def stopBegin_def session_defs)
  have h3: "returned ?s3 = None \<and> ended ?s3"
    by (simp add: liveSession_def stopBegin_def session_defs)
  from stop_escalates_after_timeout [OF l, of ?s1 TaskSupervisor "[Tick 1000]" 2000] h1
  have "signalsSent (step TaskSupervisor (Tick 2000) ?s1) = [SIGTERM, SIGKILL]"
    by blast
  then have 1: "signalsSent (run TaskSupervisor [Tick 1000, Tick 2000] ?b) = [SIGTERM, SIGKILL]"
    by simp
  from stop_escalates_after_timeout [OF l, of ?s2 TaskSupervisor "[Tick 1000, Exit (Some 255)]"] h2
  have "returned (step TaskSupervisor Close ?s2) = Some Stopped"
    by blast
  then have 2: "returned (run TaskSupervisor [Tick 1000, Exit (Some 255), Close] ?b)
      = Some Stopped"
    by simp
  from stop_escalates_after_timeout [OF l, of ?s3 TaskSupervisor "[Tick 1000, Exit None]"] h3
  have "signalsSent (run TaskSupervisor [Tick 5000, Close] ?s3) = [SIGTERM]"
    by blast
  then have 3: "signalsSent (run TaskSupervisor [Tick 1000, Exit None, Tick 5000, Close] ?b)
      = [SIGTERM]"
    by simp
  from l 1 2 3 show ?thesis by blast
qed

text \<open>
  Claim C3 as stated fails in its last part. When the timer fires first, the call
  returns without the exit notification: no \<open>close\<close> event was emitted, the handle is
  still registered and the record it returns still says \<open>running\<close>.
\<close>

theorem stop_returns_at_timeout_counterexample:
  "live liveSession
   \<and> returned (run TaskSupervisor [Tick 3000] (stopBegin liveSession)) = Some Running
   \<and> \<not> closeEmitted (run TaskSupervisor [Tick 3000] (stopBegin liveSession))
   \<and> registered (run TaskSupervisor [Tick 3000] (stopBegin liveSession))
   \<and> returned (run ServerSupervisor [Tick 3000] (stopBegin liveSession)) = Some Running
   \<and> \<not> closeEmitted (run ServerSupervisor [Tick 3000] (stopBegin liveSession))"
  by (simp add: live_def liveSession_def stopBegin_def session_defs)

end
